theory Spec2Isabelle
  imports Main "HOL-Library.Sublist" "HOL-Library.AList"
begin

section \<open>Strings\<close>

text \<open>
  JavaScript strings are modelled as \<^typ>\<open>string\<close> (lists of 8-bit characters, that is the
  UTF-8 bytes of the text). \<open>String.prototype.startsWith\<close>, \<open>includes\<close> and \<open>slice(n)\<close> are
  the list operations below.
\<close>

definition startsWith :: "string \<Rightarrow> string \<Rightarrow> bool" where
  "startsWith u p = prefix p u"

fun includes_str :: "string \<Rightarrow> string \<Rightarrow> bool" where
  "includes_str [] p = (p = [])"
| "includes_str (c # cs) p = (prefix p (c # cs) \<or> includes_str cs p)"

definition slice_from :: "string \<Rightarrow> nat \<Rightarrow> string" where
  "slice_from u n = drop n u"

text \<open>\<open>x || d\<close> on strings: the empty string is falsy.\<close>

definition or_else :: "string \<Rightarrow> string \<Rightarrow> string" where
  "or_else x d = (if x = [] then d else x)"

section \<open>server.ts: escapeRegExp and stripOriginInText\<close>

text \<open>
  \<open>escapeRegExp\<close> (server.ts 27-29) replaces every character of the class
  \<open>[.*+?^${}()|[\]\\]\<close> by a backslash followed by the character itself.
\<close>

definition backslash :: char where
  "backslash = CHR 0x5C"

definition regexSyntaxChars :: "char list" where
  "regexSyntaxChars =
     [CHR ''.'', CHR ''*'', CHR ''+'', CHR ''?'', CHR ''^'', CHR ''$'', CHR ''{'', CHR ''}'',
      CHR ''('', CHR '')'', CHR ''|'', CHR ''['', CHR '']'', CHR 0x5C]"

definition escapeRegExp :: "string \<Rightarrow> string" where
  "escapeRegExp s =
     concat (map (\<lambda>c. if c \<in> set regexSyntaxChars then [backslash, c] else [c]) s)"

text \<open>
  The platform's \<open>new RegExp(pattern, "g")\<close>, for the fragment of the pattern language that
  the patterns of this program can reach: a pattern is a sequence of items, an unescaped
  \<open>.\<close> matches any character but a line terminator, a backslash followed by a syntax
  character matches that character, and any other character matches itself. A pattern
  outside this fragment (a quantifier, group, class, anchor, alternation, a backslash at
  the end or before a non-syntax character) gives \<open>None\<close>, which also stands for the
  \<open>SyntaxError\<close> the constructor throws on a malformed pattern.
\<close>

datatype re_item = Lit char | AnyChar

fun RegExp_new :: "string \<Rightarrow> re_item list option" where
  "RegExp_new [] = Some []"
| "RegExp_new [c] =
     (if c = CHR ''.'' then Some [AnyChar]
      else if c \<in> set regexSyntaxChars then None
      else Some [Lit c])"
| "RegExp_new (c # d # cs) =
     (if c = backslash then
        (if d \<in> set regexSyntaxChars then map_option ((#) (Lit d)) (RegExp_new cs) else None)
      else if c = CHR ''.'' then map_option ((#) AnyChar) (RegExp_new (d # cs))
      else if c \<in> set regexSyntaxChars then None
      else map_option ((#) (Lit c)) (RegExp_new (d # cs)))"

fun item_matches :: "re_item \<Rightarrow> char \<Rightarrow> bool" where
  "item_matches (Lit d) c = (c = d)"
| "item_matches AnyChar c = (c \<noteq> CHR 0x0A \<and> c \<noteq> CHR 0x0D)"

fun match_here :: "re_item list \<Rightarrow> string \<Rightarrow> bool" where
  "match_here [] cs = True"
| "match_here (a # as) [] = False"
| "match_here (a # as) (c # cs) = (item_matches a c \<and> match_here as cs)"

text \<open>
  \<open>text.replace(re, "")\<close> with the global flag: scan from the left; where the pattern
  matches, drop the match and go on behind it; elsewhere keep the character. An empty
  match deletes nothing and the scan moves on by one character.
\<close>

fun replace_g :: "re_item list \<Rightarrow> string \<Rightarrow> string" where
  "replace_g re [] = []"
| "replace_g re (c # cs) =
     (if re \<noteq> [] \<and> match_here re (c # cs)
      then replace_g re (drop (length re - 1) cs)
      else c # replace_g re cs)"

text \<open>
  \<open>stripOriginInText\<close> (server.ts 37-40). \<open>None\<close>: the \<open>RegExp\<close> constructor threw.
  \<open>stripOriginInCss\<close> (42-44) is the same function.
\<close>

definition stripOriginInText :: "string \<Rightarrow> string \<Rightarrow> string option" where
  "stripOriginInText text origin =
     (if origin = [] then Some text
      else map_option (\<lambda>re. replace_g re text) (RegExp_new (escapeRegExp origin)))"

definition stripOriginInCss :: "string \<Rightarrow> string \<Rightarrow> string option" where
  "stripOriginInCss css origin = stripOriginInText css origin"

subsection \<open>The specification's reading: split on the origin and join the pieces\<close>

text \<open>
  \<open>text.split(sep)\<close> of the platform: the pieces between the occurrences of \<open>sep\<close> found
  from the left, each search starting behind the previous occurrence; an empty separator
  splits into single characters.
\<close>

fun split_from :: "string \<Rightarrow> string \<Rightarrow> string \<Rightarrow> string list" where
  "split_from sep piece [] = [piece]"
| "split_from sep piece (c # cs) =
     (if prefix sep (c # cs)
      then piece # split_from sep [] (drop (length sep - 1) cs)
      else split_from sep (piece @ [c]) cs)"

definition String_split :: "string \<Rightarrow> string \<Rightarrow> string list" where
  "String_split text sep =
     (if sep = [] then map (\<lambda>c. [c]) text else split_from sep [] text)"

definition split_join :: "string \<Rightarrow> string \<Rightarrow> string" where
  "split_join text sep = concat (String_split text sep)"

section \<open>The runtime patch (generated by buildRuntimePatch): strip and proxyOrStrip\<close>

text \<open>
  The two URL functions of the generated script (server.ts 181-197). \<open>ORIGIN\<close> is the
  origin the script was generated for, \<open>location_origin\<close> is \<open>location.origin\<close> of the page
  the script runs in. Both functions return a non-string argument as it is; the model is
  their behaviour on strings, where \<open>!u\<close> holds for the empty string only.
\<close>

definition strip :: "string \<Rightarrow> string \<Rightarrow> string" where
  "strip ORIGIN u =
     (if u = [] then u
      else if startsWith u ORIGIN then or_else (slice_from u (length ORIGIN)) ''/''
      else u)"

text \<open>
  \<open>encodeURIComponent\<close> of the platform on UTF-8 bytes: letters, digits and
  \<open>- _ . ! ~ * ' ( )\<close> stay, every other byte becomes \<open>%XX\<close> with upper-case hexadecimal
  digits. (On a lone surrogate the platform throws; a byte string cannot hold one.)
\<close>

definition uriUnreserved :: "char \<Rightarrow> bool" where
  "uriUnreserved c =
     (let n = (of_char c :: nat) in
        (65 \<le> n \<and> n \<le> 90) \<or> (97 \<le> n \<and> n \<le> 122) \<or> (48 \<le> n \<and> n \<le> 57) \<or>
        c \<in> set [CHR ''-'', CHR ''_'', CHR ''.'', CHR ''!'', CHR ''~'', CHR ''*'', CHR 0x27,
                  CHR ''('', CHR '')''])"

definition hexDigit :: "nat \<Rightarrow> char" where
  "hexDigit n = ''0123456789ABCDEF'' ! n"

definition percentEncode :: "char \<Rightarrow> string" where
  "percentEncode c =
     (let n = (of_char c :: nat) in [CHR ''%'', hexDigit (n div 16), hexDigit (n mod 16)])"

definition encodeURIComponent :: "string \<Rightarrow> string" where
  "encodeURIComponent s =
     concat (map (\<lambda>c. if uriUnreserved c then [c] else percentEncode c) s)"

text \<open>The test \<open>/^https?:\/\//.test(u)\<close>.\<close>

definition isAbsoluteHttp :: "string \<Rightarrow> bool" where
  "isAbsoluteHttp u = (startsWith u ''http://'' \<or> startsWith u ''https://'')"

definition proxyOrStrip :: "string \<Rightarrow> string \<Rightarrow> string \<Rightarrow> string" where
  "proxyOrStrip ORIGIN location_origin u =
     (if u = [] then u
      else if startsWith u ''data:'' \<or> startsWith u ''blob:'' \<or> startsWith u ''javascript:'' \<or>
              startsWith u ''#'' then u
      else if startsWith u ORIGIN then or_else (slice_from u (length ORIGIN)) ''/''
      else if isAbsoluteHttp u \<and> \<not> startsWith u location_origin
        then ''/proxy?url='' @ encodeURIComponent u
      else u)"

text \<open>
  The specification's words for \<open>resolve\<close>: the references it leaves untouched, and a
  third-party absolute URL.
\<close>

definition leftUntouched :: "string \<Rightarrow> bool" where
  "leftUntouched u =
     (startsWith u ''data:'' \<or> startsWith u ''blob:'' \<or> startsWith u ''javascript:'' \<or>
      startsWith u ''#'')"

definition thirdPartyAbsolute :: "string \<Rightarrow> string \<Rightarrow> string \<Rightarrow> bool" where
  "thirdPartyAbsolute ORIGIN location_origin u =
     (isAbsoluteHttp u \<and> \<not> startsWith u ORIGIN \<and> \<not> startsWith u location_origin)"

section \<open>server.ts: rewriteHtml on the parsed document\<close>

text \<open>
  \<open>rewriteHtml\<close> (server.ts 78-167) parses the HTML with cheerio, changes the document and
  serialises it. The document is a forest of nodes; an element has a lower-case tag name,
  its attributes in order, and its children.
\<close>

datatype node =
    Element string "(string \<times> string) list" "node list"
  | Text string
  | Comment string

type_synonym attrs = "(string \<times> string) list"

text \<open>
  \<open>$(sel).remove()\<close>: every element the selector matches goes, with its subtree.
\<close>

fun removeWhere :: "(string \<Rightarrow> attrs \<Rightarrow> bool) \<Rightarrow> node list \<Rightarrow> node list" where
  "removeWhere P [] = []"
| "removeWhere P (Element t as cs # ns) =
     (if P t as then removeWhere P ns
      else Element t as (removeWhere P cs) # removeWhere P ns)"
| "removeWhere P (n # ns) = n # removeWhere P ns"

text \<open>
  \<open>$(sel).each\<close> with a body that reads and writes attributes of the element itself:
  \<open>f\<close> gives the new attributes of an element from its tag and attributes (the identity where
  the selector does not match). The second form is for a body that can throw.
\<close>

fun mapAttrs :: "(string \<Rightarrow> attrs \<Rightarrow> attrs) \<Rightarrow> node list \<Rightarrow> node list" where
  "mapAttrs f [] = []"
| "mapAttrs f (Element t as cs # ns) = Element t (f t as) (mapAttrs f cs) # mapAttrs f ns"
| "mapAttrs f (n # ns) = n # mapAttrs f ns"

fun mapAttrsM :: "(string \<Rightarrow> attrs \<Rightarrow> attrs option) \<Rightarrow> node list \<Rightarrow> node list option" where
  "mapAttrsM f [] = Some []"
| "mapAttrsM f (Element t as cs # ns) =
     (case f t as of
        None \<Rightarrow> None
      | Some as' \<Rightarrow>
          (case mapAttrsM f cs of
             None \<Rightarrow> None
           | Some cs' \<Rightarrow> map_option ((#) (Element t as' cs')) (mapAttrsM f ns)))"
| "mapAttrsM f (n # ns) = map_option ((#) n) (mapAttrsM f ns)"

text \<open>
  \<open>$(el).html()\<close> and \<open>$(el).html(str)\<close> on a \<open>style\<close> or \<open>script\<close> element. The HTML parser
  reads the content of these elements as raw text, so the content is the text of the
  element's text children, and setting it leaves one text child (none for the empty
  string).
\<close>

fun nodeText :: "node \<Rightarrow> string" where
  "nodeText (Text s) = s"
| "nodeText (Element t as cs) = []"
| "nodeText (Comment s) = []"

definition textContent :: "node list \<Rightarrow> string" where
  "textContent cs = concat (map nodeText cs)"

definition rawChildren :: "string \<Rightarrow> node list" where
  "rawChildren s = (if s = [] then [] else [Text s])"

text \<open>
  The loops over \<open>$("style")\<close> (131-136) and \<open>$("script:not([src])")\<close> (139-144): an element
  that is selected, whose content is not empty and includes the origin, gets the stripped
  content; its old children are gone, so the loop changes nothing below it. Every other
  element keeps its attributes and the loop goes on in its children.
\<close>

fun stripContentWhere ::
  "(string \<Rightarrow> attrs \<Rightarrow> bool) \<Rightarrow> string \<Rightarrow> node list \<Rightarrow> node list option" where
  "stripContentWhere sel origin [] = Some []"
| "stripContentWhere sel origin (Element t as cs # ns) =
     (if sel t as \<and> textContent cs \<noteq> [] \<and> includes_str (textContent cs) origin then
        (case stripOriginInText (textContent cs) origin of
           None \<Rightarrow> None
         | Some s \<Rightarrow>
             map_option ((#) (Element t as (rawChildren s))) (stripContentWhere sel origin ns))
      else
        (case stripContentWhere sel origin cs of
           None \<Rightarrow> None
         | Some cs' \<Rightarrow> map_option ((#) (Element t as cs')) (stripContentWhere sel origin ns)))"
| "stripContentWhere sel origin (n # ns) = map_option ((#) n) (stripContentWhere sel origin ns)"

text \<open>\<open>$(tag).length\<close>, \<open>$(tag).prepend(nodes)\<close> and \<open>$(tag).append(nodes)\<close>.\<close>

fun countWhere :: "(string \<Rightarrow> attrs \<Rightarrow> bool) \<Rightarrow> node list \<Rightarrow> nat" where
  "countWhere P [] = 0"
| "countWhere P (Element t as cs # ns) =
     (if P t as then 1 else 0) + countWhere P cs + countWhere P ns"
| "countWhere P (n # ns) = countWhere P ns"

definition countTag :: "string \<Rightarrow> node list \<Rightarrow> nat" where
  "countTag tag d = countWhere (\<lambda>t as. t = tag) d"

fun prependTo :: "string \<Rightarrow> node list \<Rightarrow> node list \<Rightarrow> node list" where
  "prependTo tag new [] = []"
| "prependTo tag new (Element t as cs # ns) =
     Element t as ((if t = tag then new else []) @ prependTo tag new cs) # prependTo tag new ns"
| "prependTo tag new (n # ns) = n # prependTo tag new ns"

fun appendTo :: "string \<Rightarrow> node list \<Rightarrow> node list \<Rightarrow> node list" where
  "appendTo tag new [] = []"
| "appendTo tag new (Element t as cs # ns) =
     Element t as (appendTo tag new cs @ (if t = tag then new else [])) # appendTo tag new ns"
| "appendTo tag new (n # ns) = n # appendTo tag new ns"

subsection \<open>Lines 83-95: what blocks the injection goes\<close>

text \<open>
  The \<open>base\<close> elements, the \<open>meta\<close> elements whose \<open>http-equiv\<close> is one of three header
  names, the \<open>integrity\<close> and \<open>nonce\<close> attributes of every element and the \<open>crossorigin\<close>
  attribute of \<open>script\<close> and \<open>link\<close> elements. In an HTML document the selector
  \<open>meta[http-equiv="..."]\<close> compares the value of \<open>http-equiv\<close> without regard to the case
  of its letters.
\<close>

definition toLowerAscii :: "char \<Rightarrow> char" where
  "toLowerAscii c =
     (let n = (of_char c :: nat) in if 65 \<le> n \<and> n \<le> 90 then char_of (n + 32) else c)"

definition lowerCase :: "string \<Rightarrow> string" where
  "lowerCase s = map toLowerAscii s"

definition isBlockingMeta :: "string \<Rightarrow> attrs \<Rightarrow> bool" where
  "isBlockingMeta t as =
     (t = ''meta'' \<and>
      (case map_of as ''http-equiv'' of
         None \<Rightarrow> False
       | Some v \<Rightarrow>
           lowerCase v = lowerCase ''Content-Security-Policy'' \<or>
           lowerCase v = lowerCase ''Content-Security-Policy-Report-Only'' \<or>
           lowerCase v = lowerCase ''X-Frame-Options''))"

definition removeIntegrity :: "string \<Rightarrow> attrs \<Rightarrow> attrs" where
  "removeIntegrity t as =
     (let as1 = AList.delete ''integrity'' as;
          as2 = AList.delete ''nonce'' as1
      in if t = ''script'' \<or> t = ''link'' then AList.delete ''crossorigin'' as2 else as2)"

definition sanitizeDom :: "node list \<Rightarrow> node list" where
  "sanitizeDom d =
     mapAttrs removeIntegrity
       (removeWhere isBlockingMeta (removeWhere (\<lambda>t as. t = ''base'') d))"

subsection \<open>Lines 103-144: the origin is stripped\<close>

definition urlAttrs :: "string list" where
  "urlAttrs = [''src'', ''href'', ''action'', ''data'', ''poster'']"

text \<open>
  The body of the loop over \<open>$(`[${attr}]`)\<close> (108-113), on the attributes of one element.
\<close>

definition stripUrlAttr :: "string \<Rightarrow> string \<Rightarrow> string \<Rightarrow> attrs \<Rightarrow> attrs" where
  "stripUrlAttr origin attr t as =
     (case map_of as attr of
        None \<Rightarrow> as
      | Some val \<Rightarrow>
          if val \<noteq> [] \<and> startsWith val origin
          then AList.update attr (or_else (slice_from val (length origin)) ''/'') as
          else as)"

text \<open>The body of the loops over \<open>$("[srcset]")\<close> (117-122) and \<open>$("[style]")\<close> (125-130).\<close>

definition stripTextAttr :: "string \<Rightarrow> string \<Rightarrow> string \<Rightarrow> attrs \<Rightarrow> attrs option" where
  "stripTextAttr origin attr t as =
     (case map_of as attr of
        None \<Rightarrow> Some as
      | Some v \<Rightarrow>
          if v \<noteq> [] \<and> includes_str v origin
          then map_option (\<lambda>v'. AList.update attr v' as) (stripOriginInText v origin)
          else Some as)"

definition isStyle :: "string \<Rightarrow> attrs \<Rightarrow> bool" where
  "isStyle t as = (t = ''style'')"

text \<open>
  \<open>script:not([src])\<close>, without the scripts the loop body skips because their
  \<open>data-proxy-injected\<close> attribute is set (to a non-empty value).
\<close>

definition isProxyInjected :: "attrs \<Rightarrow> bool" where
  "isProxyInjected as =
     (case map_of as ''data-proxy-injected'' of None \<Rightarrow> False | Some v \<Rightarrow> v \<noteq> [])"

definition isPageInlineScript :: "string \<Rightarrow> attrs \<Rightarrow> bool" where
  "isPageInlineScript t as =
     (t = ''script'' \<and> map_of as ''src'' = None \<and> \<not> isProxyInjected as)"

definition stripOriginDom :: "string \<Rightarrow> node list \<Rightarrow> node list option" where
  "stripOriginDom origin d =
     (let d1 = foldl (\<lambda>d attr. mapAttrs (stripUrlAttr origin attr) d) d urlAttrs in
      case mapAttrsM (stripTextAttr origin ''srcset'') d1 of
        None \<Rightarrow> None
      | Some d2 \<Rightarrow>
          (case mapAttrsM (stripTextAttr origin ''style'') d2 of
             None \<Rightarrow> None
           | Some d3 \<Rightarrow>
               (case stripContentWhere isStyle origin d3 of
                  None \<Rightarrow> None
                | Some d4 \<Rightarrow> stripContentWhere isPageInlineScript origin d4)))"

subsection \<open>Lines 147-164: the two scripts are injected\<close>

text \<open>
  \<open>buildRuntimePatch(origin)\<close> (171-347) is a newline, one \<open>script\<close> element marked
  \<open>data-proxy-injected="true"\<close> and a newline. \<open>patchJs\<close> is the text of the script, which
  holds the origin as a JSON string; what the script does in the page is modelled in its
  own section. The highlight bundle is the content of \<open>dist-inject/inject.js\<close> in a
  \<open>script\<close> element with the same mark.
\<close>

definition injectedScript :: "string \<Rightarrow> node" where
  "injectedScript js = Element ''script'' [(''data-proxy-injected'', ''true'')] (rawChildren js)"

definition buildRuntimePatch :: "string \<Rightarrow> node list" where
  "buildRuntimePatch patchJs = [Text [CHR 0x0A], injectedScript patchJs, Text [CHR 0x0A]]"

definition injectRuntimePatch :: "string \<Rightarrow> node list \<Rightarrow> node list" where
  "injectRuntimePatch patchJs d =
     (if countTag ''head'' d \<noteq> 0 then prependTo ''head'' (buildRuntimePatch patchJs) d
      else if countTag ''html'' d \<noteq> 0
        then prependTo ''html'' [Element ''head'' [] (buildRuntimePatch patchJs)] d
      else d)"

definition injectHighlight :: "string \<Rightarrow> node list \<Rightarrow> node list" where
  "injectHighlight injectScript d =
     (if countTag ''body'' d \<noteq> 0 then appendTo ''body'' [injectedScript injectScript] d
      else appendTo ''head'' [injectedScript injectScript] d)"

text \<open>
  The whole change of the document. \<open>readInject\<close> is the result of
  \<open>fs.readFileSync(... "inject.js")\<close>, \<open>None\<close> when it throws; \<open>None\<close> as a result is an
  exception leaving \<open>rewriteHtml\<close>.
\<close>

definition rewriteDom :: "string \<Rightarrow> string option \<Rightarrow> string \<Rightarrow> node list \<Rightarrow> node list option" where
  "rewriteDom patchJs readInject origin d =
     (case stripOriginDom origin (sanitizeDom d) of
        None \<Rightarrow> None
      | Some d1 \<Rightarrow>
          (case readInject of
             None \<Rightarrow> None
           | Some injectScript \<Rightarrow>
               Some (injectHighlight injectScript (injectRuntimePatch patchJs d1))))"

subsection \<open>The rewriting of rewriteHtml in the words of the specification\<close>

text \<open>
  What the specification asks of the output (section 8): no rewritten \<open>src\<close>, \<open>href\<close>,
  \<open>action\<close>, \<open>data\<close> or \<open>poster\<close> value, no \<open>srcset\<close>, no inline style, no \<open>style\<close> body and
  no inline script that is not proxy-injected includes the origin.
\<close>

definition attrsOriginFree :: "string \<Rightarrow> attrs \<Rightarrow> bool" where
  "attrsOriginFree origin as =
     list_all (\<lambda>(k, v). \<not> (k \<in> set urlAttrs \<or> k = ''srcset'' \<or> k = ''style'') \<or>
                          \<not> includes_str v origin) as"

fun originFree :: "string \<Rightarrow> node list \<Rightarrow> bool" where
  "originFree origin [] = True"
| "originFree origin (Element t as cs # ns) =
     (attrsOriginFree origin as \<and>
      (\<not> (isStyle t as \<or> isPageInlineScript t as) \<or> \<not> includes_str (textContent cs) origin) \<and>
      originFree origin cs \<and> originFree origin ns)"
| "originFree origin (n # ns) = originFree origin ns"

text \<open>
  What the code does to one attribute value: a \<open>src\<close>, \<open>href\<close>, \<open>action\<close>, \<open>data\<close> or
  \<open>poster\<close> value that starts with the origin loses this prefix (\<open>/\<close> when nothing is
  left); a \<open>srcset\<close> or \<open>style\<close> value is split on the origin and joined; every other value
  stays.
\<close>

definition stripPrefixValue :: "string \<Rightarrow> string \<Rightarrow> string" where
  "stripPrefixValue origin v =
     (if v \<noteq> [] \<and> startsWith v origin
      then (if drop (length origin) v = [] then ''/'' else drop (length origin) v)
      else v)"

definition rewrittenValue :: "string \<Rightarrow> string \<Rightarrow> string \<Rightarrow> string" where
  "rewrittenValue origin k v =
     (if k \<in> set urlAttrs then stripPrefixValue origin v
      else if k = ''srcset'' \<or> k = ''style'' then split_join v origin
      else v)"

definition mapValue :: "(string \<Rightarrow> string \<Rightarrow> string) \<Rightarrow> attrs \<Rightarrow> attrs" where
  "mapValue h as = map (\<lambda>(k, v). (k, h k v)) as"

definition rewrittenAttrs :: "string \<Rightarrow> attrs \<Rightarrow> attrs" where
  "rewrittenAttrs origin as = mapValue (rewrittenValue origin) as"

fun rewrittenNodes :: "string \<Rightarrow> node list \<Rightarrow> node list" where
  "rewrittenNodes origin [] = []"
| "rewrittenNodes origin (Element t as cs # ns) =
     Element t (rewrittenAttrs origin as)
       (if (isStyle t as \<or> isPageInlineScript t as) \<and> textContent cs \<noteq> [] \<and>
           includes_str (textContent cs) origin
        then rawChildren (split_join (textContent cs) origin)
        else rewrittenNodes origin cs)
     # rewrittenNodes origin ns"
| "rewrittenNodes origin (n # ns) = n # rewrittenNodes origin ns"

text \<open>The HTML parser gives an element every attribute name once.\<close>

fun distinctAttrs :: "node list \<Rightarrow> bool" where
  "distinctAttrs [] = True"
| "distinctAttrs (Element t as cs # ns) =
     (distinct (map fst as) \<and> distinctAttrs cs \<and> distinctAttrs ns)"
| "distinctAttrs (n # ns) = distinctAttrs ns"

text \<open>
  The loop of \<open>stripContentWhere\<close> with the stripped text written as split and join: by
  \<open>stripOriginInText_total\<close> below, the two agree, and the loop never throws.
\<close>

fun stripContentPure :: "(string \<Rightarrow> attrs \<Rightarrow> bool) \<Rightarrow> string \<Rightarrow> node list \<Rightarrow> node list" where
  "stripContentPure sel origin [] = []"
| "stripContentPure sel origin (Element t as cs # ns) =
     Element t as
       (if sel t as \<and> textContent cs \<noteq> [] \<and> includes_str (textContent cs) origin
        then rawChildren (split_join (textContent cs) origin)
        else stripContentPure sel origin cs)
     # stripContentPure sel origin ns"
| "stripContentPure sel origin (n # ns) = n # stripContentPure sel origin ns"

subsection \<open>Example documents\<close>

text \<open>
  A page of \<open>https://t.example\<close> as the parser gives it: a \<open>base\<close> element, a content
  security policy in a \<open>meta\<close> element with a lower-case \<open>http-equiv\<close>, a style sheet
  and an image that name the origin, a link that carries the origin in its query, and an
  inline script in which the origin is left once its inner occurrence is taken out.
\<close>

definition examplePage :: "node list" where
  "examplePage =
     [Element ''html'' []
       [Element ''head'' []
         [Element ''base'' [(''href'', ''https://t.example/'')] [],
          Element ''meta'' [(''http-equiv'', ''content-security-policy''),
             (''content'', ''default-src https://t.example'')] [],
          Element ''style'' [] [Text ''a{background:url(https://t.example/i.png)}'']],
        Element ''body'' []
         [Element ''a'' [(''href'', ''/go?to=https://t.example/x'')] [Text ''x''],
          Element ''img'' [(''src'', ''https://t.example/i.png''), (''integrity'', ''sha''),
             (''srcset'', ''https://t.example/a 1x, https://t.example/b 2x'')] [],
          Element ''script'' [] [Text ''load(hthttps://t.exampletps://t.example/api)'']]]]"

definition examplePageOnce :: "node list" where
  "examplePageOnce =
     [Element ''html'' []
       [Element ''head'' []
         [Text [CHR 0x0A],
          Element ''script'' [(''data-proxy-injected'', ''true'')] [Text ''PATCH''],
          Text [CHR 0x0A],
          Element ''style'' [] [Text ''a{background:url(/i.png)}'']],
        Element ''body'' []
         [Element ''a'' [(''href'', ''/go?to=https://t.example/x'')] [Text ''x''],
          Element ''img'' [(''src'', ''/i.png''), (''srcset'', ''/a 1x, /b 2x'')] [],
          Element ''script'' [] [Text ''load(https://t.example/api)''],
          Element ''script'' [(''data-proxy-injected'', ''true'')] [Text ''BUNDLE'']]]]"


subsection \<open>The scripts that carry the mark of an injected script\<close>


section \<open>server.ts: the HTTP handlers\<close>

subsection \<open>Content types (18-26) and response headers (63-74)\<close>

text \<open>
  \<open>response.headers.get(name)\<close> is \<open>null\<close> (\<open>None\<close>) or a string; \<open>!!ct\<close> and \<open>if (ct)\<close> hold for
  a non-empty string.
\<close>

definition truthy :: "string option \<Rightarrow> bool" where
  "truthy x = (case x of None \<Rightarrow> False | Some s \<Rightarrow> s \<noteq> [])"

definition ctIncludes :: "string option \<Rightarrow> string \<Rightarrow> bool" where
  "ctIncludes ct s = (case ct of None \<Rightarrow> False | Some c \<Rightarrow> c \<noteq> [] \<and> includes_str c s)"

definition isHtml :: "string option \<Rightarrow> bool" where
  "isHtml ct = ctIncludes ct ''text/html''"

definition isCss :: "string option \<Rightarrow> bool" where
  "isCss ct = ctIncludes ct ''text/css''"

definition isJs :: "string option \<Rightarrow> bool" where
  "isJs ct = (ctIncludes ct ''javascript'' \<or> ctIncludes ct ''ecmascript'')"

definition isJson :: "string option \<Rightarrow> bool" where
  "isJson ct = ctIncludes ct ''application/json''"

text \<open>
  The response under construction (\<open>express.Response\<close>): the status, the headers this
  program sets on it (those Express adds when it sends are not modelled), and what was
  sent.
\<close>

datatype sent_body = Json "(string \<times> string) list" | Sent string

record express_response =
  res_status :: nat
  res_headers :: "(string \<times> string) list"
  res_body :: sent_body

definition freshResponse :: express_response where
  "freshResponse = \<lparr>res_status = 200, res_headers = [], res_body = Sent []\<rparr>"

definition setHeader :: "string \<Rightarrow> string \<Rightarrow> express_response \<Rightarrow> express_response" where
  "setHeader name v res = res\<lparr>res_headers := AList.update name v (res_headers res)\<rparr>"

definition removeHeader :: "string \<Rightarrow> express_response \<Rightarrow> express_response" where
  "removeHeader name res = res\<lparr>res_headers := AList.delete name (res_headers res)\<rparr>"

definition setHeaderIf :: "string \<Rightarrow> string option \<Rightarrow> express_response \<Rightarrow> express_response" where
  "setHeaderIf name v res = (case v of None \<Rightarrow> res | Some s \<Rightarrow> if s = [] then res else setHeader name s res)"

definition setPermissiveHeaders :: "express_response \<Rightarrow> express_response" where
  "setPermissiveHeaders res =
     removeHeader ''X-Content-Type-Options''
      (removeHeader ''Content-Security-Policy-Report-Only''
        (removeHeader ''Content-Security-Policy''
          (removeHeader ''X-Frame-Options''
            (setHeader ''Access-Control-Allow-Headers'' ''*''
              (setHeader ''Access-Control-Allow-Methods'' ''GET, POST, PUT, DELETE, OPTIONS''
                (setHeader ''Access-Control-Allow-Origin'' ''*'' res))))))"

definition send :: "string \<Rightarrow> express_response \<Rightarrow> express_response" where
  "send b res = res\<lparr>res_body := Sent b\<rparr>"

definition statusJson :: "nat \<Rightarrow> (string \<times> string) list \<Rightarrow> express_response \<Rightarrow> express_response" where
  "statusJson code obj res = res\<lparr>res_status := code, res_body := Json obj\<rparr>"

subsection \<open>Upstream requests (48-59) and the platform\<close>

definition buildFetchHeaders :: "string \<Rightarrow> (string \<times> string) list" where
  "buildFetchHeaders targetOrigin =
     [(''User-Agent'',
       ''Mozilla/5.0 (Macintosh; Intel Mac OS X 10_15_7) AppleWebKit/537.36 (KHTML, like Gecko) Chrome/120.0.0.0 Safari/537.36''),
      (''Accept'',
       ''text/html,application/xhtml+xml,application/xml;q=0.9,image/avif,image/webp,*/*;q=0.8''),
      (''Accept-Language'', ''en-US,en;q=0.5''),
      (''Accept-Encoding'', ''identity''),
      (''Referer'', targetOrigin @ ''/''),
      (''Origin'', targetOrigin)]"

text \<open>The second argument of \<open>fetch\<close>; \<open>redirect\<close> is \<open>"follow"\<close> in both calls.\<close>

record fetch_init =
  init_method :: string
  init_headers :: "(string \<times> string) list"
  init_body :: "string option"

text \<open>What the program reads of a \<open>FetchResponse\<close>: its final URL, its headers, its body.\<close>

record fetch_response =
  resp_url :: string
  resp_headers :: "string \<Rightarrow> string option"
  resp_body :: string

text \<open>
  What the program takes from its platform. \<open>URL_origin u\<close> is \<open>new URL(u).origin\<close>, \<open>None\<close>
  when the constructor throws; \<open>cheerio_load\<close> and \<open>cheerio_html\<close> are \<open>cheerio.load(html)\<close>
  and \<open>$.html()\<close>; \<open>readInjectJs\<close> is the \<open>readFileSync\<close> of the highlight bundle, \<open>None\<close> when
  it throws; \<open>runtimePatchJs origin\<close> is the text of the script that
  \<open>buildRuntimePatch(origin)\<close> generates; \<open>fetch\<close> is node-fetch, \<open>Inl message\<close> when the
  promise rejects.
\<close>

record platform =
  URL_origin :: "string \<Rightarrow> string option"
  cheerio_load :: "string \<Rightarrow> node list"
  cheerio_html :: "node list \<Rightarrow> string"
  readInjectJs :: "string option"
  runtimePatchJs :: "string \<Rightarrow> string"
  fetch :: "string \<Rightarrow> fetch_init \<Rightarrow> string + fetch_response"

text \<open>\<open>rewriteHtml\<close> (78-167) on text; \<open>None\<close> is an exception.\<close>

definition rewriteHtml :: "platform \<Rightarrow> string \<Rightarrow> string \<Rightarrow> string option" where
  "rewriteHtml plat html baseUrl =
     (let d = cheerio_load plat html in
      case URL_origin plat baseUrl of
        None \<Rightarrow> None
      | Some origin \<Rightarrow>
          map_option (cheerio_html plat)
            (rewriteDom (runtimePatchJs plat origin) (readInjectJs plat) origin d))"

subsection \<open>processAndSend (351-404)\<close>

text \<open>The only state of the server (line 14).\<close>

record server_state =
  currentTargetOrigin :: string

text \<open>
  The result is the response sent, or \<open>None\<close> when the function's promise rejects and
  nothing is sent. The body of the upstream response is taken as read (\<open>response.text()\<close>,
  \<open>response.buffer()\<close>); the parameter \<open>isMainHtml\<close> is not used by the function.
\<close>

definition processAndSend ::
  "platform \<Rightarrow> server_state \<Rightarrow> fetch_response \<Rightarrow> string \<Rightarrow> express_response \<Rightarrow>
   express_response option" where
  "processAndSend plat st response finalUrl res =
     (let contentType = resp_headers response ''content-type'';
          res1 = setPermissiveHeaders res;
          res2 = setHeaderIf ''Cache-Control'' (resp_headers response ''cache-control'') res1;
          res3 = setHeaderIf ''ETag'' (resp_headers response ''etag'') res2;
          origin = (case URL_origin plat finalUrl of
                      Some parsed \<Rightarrow> parsed
                    | None \<Rightarrow> currentTargetOrigin st)
      in
        if isHtml contentType then
          map_option (\<lambda>out. send out (setHeader ''Content-Type'' ''text/html; charset=utf-8'' res3))
            (rewriteHtml plat (resp_body response) finalUrl)
        else if isCss contentType then
          map_option
            (\<lambda>out. send out
               (setHeader ''Content-Type''
                  (case contentType of None \<Rightarrow> ''text/css'' | Some c \<Rightarrow> or_else c ''text/css'') res3))
            (stripOriginInCss (resp_body response) origin)
        else if isJs contentType then
          map_option (\<lambda>out. send out (setHeaderIf ''Content-Type'' contentType res3))
            (stripOriginInText (resp_body response) origin)
        else if isJson contentType then
          map_option (\<lambda>out. send out (setHeaderIf ''Content-Type'' contentType res3))
            (stripOriginInText (resp_body response) origin)
        else
          Some (send (resp_body response) (setHeaderIf ''Content-Type'' contentType res3)))"

subsection \<open>The routes (408-509)\<close>

text \<open>
  What a handler reads of the request: method, \<open>originalUrl\<close>, \<open>query.url\<close>, the \<open>accept\<close>
  and \<open>content-type\<close> headers, and the body stream: its chunks, or \<open>Inl message\<close> when the
  stream emits \<open>error\<close>.
\<close>

record express_request =
  req_method :: string
  req_originalUrl :: string
  req_query_url :: "string option"
  req_accept :: "string option"
  req_content_type :: "string option"
  req_chunks :: "string + string list"

text \<open>
  A handler gives the new state, the calls of \<open>fetch\<close> it made, and the response it sent
  (\<open>None\<close> when its promise rejected and no response was sent).
\<close>

type_synonym outcome = "server_state \<times> (string \<times> fetch_init) list \<times> express_response option"

text \<open>The responses of the two \<open>catch\<close> blocks (434-441, 501-508) and of the two guards.\<close>

definition missingUrlResponse :: express_response where
  "missingUrlResponse = statusJson 400 [(''error'', ''Missing ?url= parameter'')] freshResponse"

definition proxyCatch :: "string \<Rightarrow> string \<Rightarrow> express_response" where
  "proxyCatch targetUrl message =
     statusJson 502
       [(''error'', ''Failed to fetch target URL''), (''details'', message), (''url'', targetUrl)]
       freshResponse"

definition noTargetResponse :: express_response where
  "noTargetResponse =
     statusJson 404
       [(''error'', ''No target origin set. Load a page via /proxy?url= first.'')] freshResponse"

definition catchAllCatch :: "string \<Rightarrow> string \<Rightarrow> express_response" where
  "catchAllCatch targetUrl message =
     statusJson 502
       [(''error'', ''Failed to fetch from target''), (''details'', message), (''url'', targetUrl)]
       freshResponse"

text \<open>The message of the \<open>TypeError\<close> that \<open>new URL\<close> throws.\<close>

definition invalidUrlMessage :: string where
  "invalidUrlMessage = ''Invalid URL''"

text \<open>\<open>app.get("/proxy")\<close> (408-442).\<close>

definition proxyHandler :: "platform \<Rightarrow> server_state \<Rightarrow> express_request \<Rightarrow> outcome" where
  "proxyHandler plat st req =
     (case req_query_url req of
        None \<Rightarrow> (st, [], Some missingUrlResponse)
      | Some targetUrl \<Rightarrow>
          if targetUrl = [] then (st, [], Some missingUrlResponse)
          else
            (case URL_origin plat targetUrl of
               None \<Rightarrow> (st, [], Some (proxyCatch targetUrl invalidUrlMessage))
             | Some targetOrigin \<Rightarrow>
                 (let init = \<lparr>init_method = ''GET'', init_headers = buildFetchHeaders targetOrigin,
                               init_body = None\<rparr>
                  in case fetch plat targetUrl init of
                       Inl message \<Rightarrow> (st, [(targetUrl, init)], Some (proxyCatch targetUrl message))
                     | Inr response \<Rightarrow>
                         (case URL_origin plat (resp_url response) of
                            None \<Rightarrow>
                              (st, [(targetUrl, init)],
                               Some (proxyCatch targetUrl invalidUrlMessage))
                          | Some finalOrigin \<Rightarrow>
                              (let st' = (if isHtml (resp_headers response ''content-type'')
                                          then st\<lparr>currentTargetOrigin := finalOrigin\<rparr> else st)
                               in (st', [(targetUrl, init)],
                                   processAndSend plat st' response (resp_url response)
                                     freshResponse))))))"

text \<open>\<open>app.options("*")\<close> (446-449).\<close>

definition preflightHandler :: "server_state \<Rightarrow> express_request \<Rightarrow> outcome" where
  "preflightHandler st req =
     (st, [], Some ((setPermissiveHeaders freshResponse)\<lparr>res_status := 204\<rparr>))"

text \<open>
  The catch-all (460-509). \<open>catchAllInit\<close> is \<open>fetchOpts\<close> as the handler builds it (471-495),
  \<open>Inl message\<close> when the request stream fails while the body is collected.
\<close>

definition catchAllInit :: "server_state \<Rightarrow> express_request \<Rightarrow> string + fetch_init" where
  "catchAllInit st req =
     (let headers0 = AList.update ''Accept''
                 (case req_accept req of None \<Rightarrow> ''*/*'' | Some a \<Rightarrow> or_else a ''*/*'')
                 (buildFetchHeaders (currentTargetOrigin st));
          init0 = \<lparr>init_method = req_method req, init_headers = headers0, init_body = None\<rparr>
      in if req_method req \<noteq> ''GET'' \<and> req_method req \<noteq> ''HEAD'' then
           (case req_chunks req of
              Inl message \<Rightarrow> Inl message
            | Inr chunks \<Rightarrow>
                if chunks \<noteq> [] then
                  Inr (init0\<lparr>init_body := Some (concat chunks),
                             init_headers :=
                               (case req_content_type req of
                                  None \<Rightarrow> headers0
                                | Some ct \<Rightarrow>
                                    if ct = [] then headers0
                                    else AList.update ''Content-Type'' ct headers0)\<rparr>)
                else Inr init0)
         else Inr init0)"

definition catchAllHandler :: "platform \<Rightarrow> server_state \<Rightarrow> express_request \<Rightarrow> outcome" where
  "catchAllHandler plat st req =
     (if currentTargetOrigin st = [] then (st, [], Some noTargetResponse)
      else
        (let targetUrl = currentTargetOrigin st @ req_originalUrl req
         in case catchAllInit st req of
              Inl message \<Rightarrow> (st, [], Some (catchAllCatch targetUrl message))
            | Inr init \<Rightarrow>
                (case fetch plat targetUrl init of
                   Inl message \<Rightarrow> (st, [(targetUrl, init)], Some (catchAllCatch targetUrl message))
                 | Inr response \<Rightarrow>
                     (st, [(targetUrl, init)],
                      processAndSend plat st response (resp_url response) freshResponse))))"

subsection \<open>The response headers in the words of the specification\<close>

definition corsOpen :: "express_response \<Rightarrow> bool" where
  "corsOpen r =
     (map_of (res_headers r) ''Access-Control-Allow-Origin'' = Some ''*'' \<and>
      map_of (res_headers r) ''Access-Control-Allow-Methods'' =
        Some ''GET, POST, PUT, DELETE, OPTIONS'' \<and>
      map_of (res_headers r) ''Access-Control-Allow-Headers'' = Some ''*'')"

definition noBlockingHeaders :: "express_response \<Rightarrow> bool" where
  "noBlockingHeaders r =
     (map_of (res_headers r) ''X-Frame-Options'' = None \<and>
      map_of (res_headers r) ''Content-Security-Policy'' = None \<and>
      map_of (res_headers r) ''Content-Security-Policy-Report-Only'' = None \<and>
      map_of (res_headers r) ''X-Content-Type-Options'' = None)"

text \<open>The response of a handler, for the cases in which one is sent.\<close>

definition sentResponse :: "outcome \<Rightarrow> express_response option" where
  "sentResponse out = snd (snd out)"

definition fetchCalls :: "outcome \<Rightarrow> (string \<times> fetch_init) list" where
  "fetchCalls out = fst (snd out)"

definition stateAfter :: "outcome \<Rightarrow> server_state" where
  "stateAfter out = fst out"

subsection \<open>An example platform\<close>

text \<open>
  The site \<open>https://t.example\<close>: its front page is HTML (the parser gives the example page),
  \<open>/notes.txt\<close> is plain text that names the origin, \<open>/app.css\<close> is a style sheet; nothing
  else answers.
\<close>

definition exampleHeaders :: "string \<Rightarrow> string \<Rightarrow> string option" where
  "exampleHeaders ct name = (if name = ''content-type'' then Some ct else None)"

definition exampleFrontPage :: fetch_response where
  "exampleFrontPage =
     \<lparr>resp_url = ''https://t.example/'',
      resp_headers = exampleHeaders ''text/html; charset=utf-8'',
      resp_body = ''<html>...</html>''\<rparr>"

definition exampleNotes :: fetch_response where
  "exampleNotes =
     \<lparr>resp_url = ''https://t.example/notes.txt'', resp_headers = exampleHeaders ''text/plain'',
      resp_body = ''see https://t.example/x''\<rparr>"

definition exampleCss :: fetch_response where
  "exampleCss =
     \<lparr>resp_url = ''https://t.example/app.css'', resp_headers = exampleHeaders ''text/css'',
      resp_body = ''a{background:url(https://t.example/i.png)}''\<rparr>"

definition exampleFetch :: "string \<Rightarrow> fetch_init \<Rightarrow> string + fetch_response" where
  "exampleFetch u init =
     (if u = ''https://t.example/'' then Inr exampleFrontPage
      else if u = ''https://t.example/notes.txt'' then Inr exampleNotes
      else if u = ''https://t.example/app.css'' then Inr exampleCss
      else Inl ''request failed'')"

definition examplePlatform :: platform where
  "examplePlatform =
     \<lparr>URL_origin = (\<lambda>u. if startsWith u ''https://t.example/'' then Some ''https://t.example''
                          else None),
      cheerio_load = (\<lambda>html. examplePage),
      cheerio_html = (\<lambda>d. ''<html>(rewritten)</html>''),
      readInjectJs = Some ''BUNDLE'',
      runtimePatchJs = (\<lambda>origin. ''PATCH''),
      fetch = exampleFetch\<rparr>"

definition exampleGet :: "string \<Rightarrow> express_request" where
  "exampleGet url =
     \<lparr>req_method = ''GET'', req_originalUrl = url, req_query_url = None, req_accept = None,
      req_content_type = None, req_chunks = Inr []\<rparr>"

definition exampleProxyGet :: "string \<Rightarrow> express_request" where
  "exampleProxyGet target =
     \<lparr>req_method = ''GET'', req_originalUrl = ''/proxy?url='' @ encodeURIComponent target,
      req_query_url = Some target, req_accept = None, req_content_type = None,
      req_chunks = Inr []\<rparr>"

definition exampleNotesSent :: express_response where
  "exampleNotesSent =
     \<lparr>res_status = 200,
      res_headers =
        [(''Access-Control-Allow-Origin'', ''*''),
         (''Access-Control-Allow-Methods'', ''GET, POST, PUT, DELETE, OPTIONS''),
         (''Access-Control-Allow-Headers'', ''*''), (''Content-Type'', ''text/plain'')],
      res_body = Sent ''see https://t.example/x''\<rparr>"

text \<open>The origin that \<open>processAndSend\<close> strips (367-372).\<close>

definition resolvedOrigin :: "platform \<Rightarrow> server_state \<Rightarrow> string \<Rightarrow> string" where
  "resolvedOrigin plat st finalUrl =
     (case URL_origin plat finalUrl of Some parsed \<Rightarrow> parsed | None \<Rightarrow> currentTargetOrigin st)"

text \<open>A text-ish content type in the sense of the specification.\<close>

definition isTextish :: "string option \<Rightarrow> bool" where
  "isTextish ct = (case ct of None \<Rightarrow> False | Some c \<Rightarrow> startsWith c ''text/'')"

section \<open>The runtime patch in the page (server.ts 174-344)\<close>

text \<open>
  A primitive of the page is modelled by what it does with the native primitive it wraps:
  the list of native calls and posted messages a call of it leads to. \<open>fetch\<close> takes a
  string, a request-like object (of which the script reads \<open>url\<close>), or something else.
\<close>

datatype message =
    LinkNavigation string string string "string option"
  | Ready string

datatype fetch_input = UrlString string | RequestObject string | OtherInput

datatype effect =
    NativeFetch fetch_input
  | NativeXhrOpen string string
  | NativeOpen string
  | NativeEventSource string
  | NativeAppendChild "(string \<times> string) list"
  | NativeInsertBefore "(string \<times> string) list"
  | NativeAssign string
  | NativeReplace string
  | PostToParent message

record window =
  w_PROXY_ORIGIN :: "string option"
  w_proxyOrStrip :: "(string \<Rightarrow> string) option"
  w_fetch :: "fetch_input \<Rightarrow> effect list"
  w_xhrOpen :: "string \<Rightarrow> string \<Rightarrow> effect list"
  w_appendChild :: "(string \<times> string) list \<Rightarrow> effect list"
  w_insertBefore :: "(string \<times> string) list \<Rightarrow> effect list"
  w_open :: "string \<Rightarrow> effect list"
  w_EventSource :: "(string \<Rightarrow> effect list) option"
  w_locationAssign :: "(string \<Rightarrow> effect list) option"
  w_locationReplace :: "(string \<Rightarrow> effect list) option"

text \<open>The argument that the patched \<open>fetch\<close> hands on (202-209).\<close>

definition patchedFetchInput :: "string \<Rightarrow> string \<Rightarrow> fetch_input \<Rightarrow> fetch_input" where
  "patchedFetchInput ORIGIN location_origin input =
     (case input of
        UrlString s \<Rightarrow> UrlString (proxyOrStrip ORIGIN location_origin s)
      | RequestObject u \<Rightarrow>
          if u = [] then RequestObject u
          else RequestObject (proxyOrStrip ORIGIN location_origin u)
      | OtherInput \<Rightarrow> OtherInput)"

text \<open>
  \<open>fixChild\<close> (262-279) on the attributes of the inserted element: an \<open>src\<close> and an \<open>href\<close>
  that start with the origin lose it, \<open>integrity\<close> and \<open>crossorigin\<close> go.
\<close>

definition fixAttr :: "string \<Rightarrow> string \<Rightarrow> attrs \<Rightarrow> attrs" where
  "fixAttr ORIGIN name as =
     (case map_of as name of
        None \<Rightarrow> as
      | Some v \<Rightarrow>
          if v \<noteq> [] \<and> startsWith v ORIGIN
          then AList.update name (or_else (slice_from v (length ORIGIN)) ''/'') as
          else as)"

definition fixChild :: "string \<Rightarrow> attrs \<Rightarrow> attrs" where
  "fixChild ORIGIN as =
     AList.delete ''crossorigin''
       (AList.delete ''integrity'' (fixAttr ORIGIN ''href'' (fixAttr ORIGIN ''src'' as)))"

text \<open>
  One execution of the script in the window it finds. The script is strict code
  (line 175), and \<open>location.assign\<close> and \<open>location.replace\<close> are read-only properties of
  the browser's \<open>location\<close>: the assignment at line 329 (at line 336, where there is no
  \<open>assign\<close>) throws a \<open>TypeError\<close> and the script ends there. So an execution makes the
  assignments of lines 177-301 (and 303-323), leaves \<open>location.assign\<close> and
  \<open>location.replace\<close> what they were, and ends with the exception unless the window has
  neither of the two. (The overrides of \<open>document.createElement\<close>, \<open>Image\<close> and \<open>WebSocket\<close>
  are not part of this model; the line for the console at 343 is reached only without the
  exception.)
\<close>

datatype script_end = Completed | TypeErrorThrown

definition runRuntimePatch :: "string \<Rightarrow> string \<Rightarrow> window \<Rightarrow> window" where
  "runRuntimePatch ORIGIN location_origin w =
     w\<lparr>w_PROXY_ORIGIN := Some ORIGIN,
       w_proxyOrStrip := Some (proxyOrStrip ORIGIN location_origin),
       w_fetch := (\<lambda>input. w_fetch w (patchedFetchInput ORIGIN location_origin input)),
       w_xhrOpen := (\<lambda>m u. w_xhrOpen w m (proxyOrStrip ORIGIN location_origin u)),
       w_appendChild := (\<lambda>child. w_appendChild w (fixChild ORIGIN child)),
       w_insertBefore := (\<lambda>child. w_insertBefore w (fixChild ORIGIN child)),
       w_open := (\<lambda>u. w_open w (strip ORIGIN u)),
       w_EventSource :=
         (case w_EventSource w of
            None \<Rightarrow> None
          | Some es \<Rightarrow> Some (\<lambda>u. es (strip ORIGIN u)))\<rparr>"

definition runtimePatchEnd :: "window \<Rightarrow> script_end" where
  "runtimePatchEnd w =
     (case w_locationAssign w of
        Some f \<Rightarrow> TypeErrorThrown
      | None \<Rightarrow>
          (case w_locationReplace w of
             Some f \<Rightarrow> TypeErrorThrown
           | None \<Rightarrow> Completed))"

text \<open>The window of a browser before any script has run.\<close>

definition nativeWindow :: window where
  "nativeWindow =
     \<lparr>w_PROXY_ORIGIN = None,
      w_proxyOrStrip = None,
      w_fetch = (\<lambda>input. [NativeFetch input]),
      w_xhrOpen = (\<lambda>m u. [NativeXhrOpen m u]),
      w_appendChild = (\<lambda>child. [NativeAppendChild child]),
      w_insertBefore = (\<lambda>child. [NativeInsertBefore child]),
      w_open = (\<lambda>u. [NativeOpen u]),
      w_EventSource = Some (\<lambda>u. [NativeEventSource u]),
      w_locationAssign = Some (\<lambda>u. [NativeAssign u]),
      w_locationReplace = Some (\<lambda>u. [NativeReplace u])\<rparr>"

section \<open>inject.ts: the guard, link interception and the history overrides\<close>

text \<open>
  What the script reads of a URL object, and \<open>new URL(href, base)\<close> of the platform as a
  parameter \<open>URL_new\<close> of the functions below (\<open>None\<close> when the constructor throws).
\<close>

record url =
  url_href :: string
  url_pathname :: string
  url_search :: string
  url_hash :: string

text \<open>
  The state of the page that the script reads and writes: the two globals, the location,
  the inspector flag, the session history as the (state, URL) pairs pushed so far, whether
  the script has put its click listener and its history overrides in place, and the
  messages posted to the parent frame. (\<open>notifyParent\<close> swallows an exception of
  \<open>postMessage\<close>; posting is taken to succeed.)
\<close>

record page =
  PROXY_ORIGIN :: "string option"
  PROXY_HIGHLIGHT_INIT :: bool
  location :: url
  inspectorMode :: bool
  historyEntries :: "(string \<times> string) list"
  overridesInstalled :: bool
  posted :: "message list"

text \<open>
  An element on the way from the click target to the root: its tag name, its \<open>href\<close>
  attribute, its text content, and the selector that \<open>getUniqueSelector\<close> gives for it
  (which depends on the element's place in the document, not modelled here).
\<close>

record element =
  el_tagName :: string
  el_href :: "string option"
  el_textContent :: string
  el_selector :: string

text \<open>\<open>(window as any).__PROXY_ORIGIN__ || ""\<close>.\<close>

definition proxyOrigin :: "page \<Rightarrow> string" where
  "proxyOrigin p = (case PROXY_ORIGIN p of None \<Rightarrow> [] | Some v \<Rightarrow> v)"

text \<open>
  The URL that is reported for a resolved URL (648-651, 680-682, 703-705): the proxied
  origin, when it is set, followed by path, query and fragment of the resolved URL.
\<close>

definition reconstructed :: "page \<Rightarrow> url \<Rightarrow> string" where
  "reconstructed p resolved =
     (if proxyOrigin p \<noteq> []
      then proxyOrigin p @ url_pathname resolved @ url_search resolved @ url_hash resolved
      else url_href resolved)"

text \<open>
  \<open>String.prototype.trim\<close> for text whose white space is ASCII (the platform also removes
  the other Unicode white space), and \<open>substring(0, 200)\<close> as the first 200 characters of
  the byte string (the platform counts UTF-16 code units; the two agree on ASCII text).
\<close>

definition isSpace :: "char \<Rightarrow> bool" where
  "isSpace c = (c \<in> set [CHR 0x20, CHR 0x09, CHR 0x0A, CHR 0x0B, CHR 0x0C, CHR 0x0D])"

definition trim :: "string \<Rightarrow> string" where
  "trim s = rev (dropWhile isSpace (rev (dropWhile isSpace s)))"

text \<open>The walk from the target up to the closest \<open>A\<close> element (616-620).\<close>

fun closestAnchor :: "element list \<Rightarrow> element option" where
  "closestAnchor [] = None"
| "closestAnchor (e # es) = (if el_tagName e = ''A'' then Some e else closestAnchor es)"

text \<open>
  The click listener (609-668). The result says whether the listener called
  \<open>preventDefault\<close> and \<open>stopPropagation\<close>, and gives the page after it.
\<close>

definition blockAndNotify :: "page \<Rightarrow> element \<Rightarrow> string \<Rightarrow> bool \<times> page" where
  "blockAndNotify p anchor fullUrl =
     (True,
      p\<lparr>posted := posted p @
           [LinkNavigation fullUrl (take 200 (trim (el_textContent anchor)))
              (el_selector anchor) None]\<rparr>)"

definition clickListener ::
  "(string \<Rightarrow> string \<Rightarrow> url option) \<Rightarrow> page \<Rightarrow> element list \<Rightarrow> bool \<times> page" where
  "clickListener URL_new p path =
     (if inspectorMode p then (False, p)
      else
        (case closestAnchor path of
           None \<Rightarrow> (False, p)
         | Some anchor \<Rightarrow>
             (case el_href anchor of
                None \<Rightarrow> (False, p)
              | Some href \<Rightarrow>
                  if href = [] then (False, p)
                  else if startsWith href ''#'' \<or> startsWith href ''javascript:'' \<or>
                          startsWith href ''mailto:'' \<or> startsWith href ''tel:''
                    then (False, p)
                  else
                    (case URL_new href (url_href (location p)) of
                       None \<Rightarrow> blockAndNotify p anchor href
                     | Some resolved \<Rightarrow>
                         if url_pathname resolved = url_pathname (location p) \<and>
                            url_search resolved = url_search (location p) \<and>
                            url_hash resolved \<noteq> url_hash (location p)
                         then (False, p)
                         else blockAndNotify p anchor (reconstructed p resolved)))))"

text \<open>
  The overrides of \<open>history.pushState\<close> and \<open>history.replaceState\<close> (674-717). The URL
  argument is absent (\<open>None\<close>) or a string.
\<close>

definition reportedUrl :: "(string \<Rightarrow> string \<Rightarrow> url option) \<Rightarrow> page \<Rightarrow> string \<Rightarrow> string" where
  "reportedUrl URL_new p u =
     (case URL_new u (url_href (location p)) of
        None \<Rightarrow> u
      | Some resolved \<Rightarrow> reconstructed p resolved)"

definition pushStateOverride ::
  "(string \<Rightarrow> string \<Rightarrow> url option) \<Rightarrow> page \<Rightarrow> string \<Rightarrow> string option \<Rightarrow> page" where
  "pushStateOverride URL_new p state u =
     (case u of
        None \<Rightarrow> p
      | Some v \<Rightarrow>
          if v = [] then p
          else p\<lparr>posted := posted p @
                 [LinkNavigation (reportedUrl URL_new p v) [] [] (Some ''pushState'')]\<rparr>)"

definition replaceStateOverride ::
  "(string \<Rightarrow> string \<Rightarrow> url option) \<Rightarrow> page \<Rightarrow> string \<Rightarrow> string option \<Rightarrow> page" where
  "replaceStateOverride URL_new p state u =
     (case u of
        None \<Rightarrow> p
      | Some v \<Rightarrow>
          if v \<noteq> [] \<and> v \<noteq> url_href (location p)
          then p\<lparr>posted := posted p @
                 [LinkNavigation (reportedUrl URL_new p v) [] [] (Some ''replaceState'')]\<rparr>
          else p)"

text \<open>
  The browser's own \<open>pushState\<close> and \<open>replaceState\<close>, which the script keeps in
  \<open>origPushState\<close> and \<open>origReplaceState\<close>: a new entry, or a new last entry, with the state
  and the resolved URL, which also becomes the location. (With a URL the browser refuses,
  they throw and change nothing.)
\<close>

definition nativePushState ::
  "(string \<Rightarrow> string \<Rightarrow> url option) \<Rightarrow> page \<Rightarrow> string \<Rightarrow> string option \<Rightarrow> page" where
  "nativePushState URL_new p state u =
     (case u of
        None \<Rightarrow> p\<lparr>historyEntries := historyEntries p @ [(state, url_href (location p))]\<rparr>
      | Some v \<Rightarrow>
          (case URL_new v (url_href (location p)) of
             None \<Rightarrow> p
           | Some resolved \<Rightarrow>
               p\<lparr>historyEntries := historyEntries p @ [(state, url_href resolved)],
                  location := resolved\<rparr>))"

definition nativeReplaceState ::
  "(string \<Rightarrow> string \<Rightarrow> url option) \<Rightarrow> page \<Rightarrow> string \<Rightarrow> string option \<Rightarrow> page" where
  "nativeReplaceState URL_new p state u =
     (case u of
        None \<Rightarrow> p\<lparr>historyEntries := butlast (historyEntries p) @ [(state, url_href (location p))]\<rparr>
      | Some v \<Rightarrow>
          (case URL_new v (url_href (location p)) of
             None \<Rightarrow> p
           | Some resolved \<Rightarrow>
               p\<lparr>historyEntries := butlast (historyEntries p) @ [(state, url_href resolved)],
                  location := resolved\<rparr>))"

text \<open>
  A call of \<open>history.pushState\<close> or \<open>history.replaceState\<close> by the page reaches the override
  once the script has installed it.
\<close>

definition history_pushState ::
  "(string \<Rightarrow> string \<Rightarrow> url option) \<Rightarrow> page \<Rightarrow> string \<Rightarrow> string option \<Rightarrow> page" where
  "history_pushState URL_new p state u =
     (if overridesInstalled p then pushStateOverride URL_new p state u
      else nativePushState URL_new p state u)"

definition history_replaceState ::
  "(string \<Rightarrow> string \<Rightarrow> url option) \<Rightarrow> page \<Rightarrow> string \<Rightarrow> string option \<Rightarrow> page" where
  "history_replaceState URL_new p state u =
     (if overridesInstalled p then replaceStateOverride URL_new p state u
      else nativeReplaceState URL_new p state u)"

text \<open>
  One execution of the bundle (12-722): nothing when the guard is set; otherwise the guard
  is set, the listeners and overrides are put in place, and \<open>ready\<close> is posted.
\<close>

definition runHighlightBundle :: "page \<Rightarrow> page" where
  "runHighlightBundle p =
     (if PROXY_HIGHLIGHT_INIT p then p
      else p\<lparr>PROXY_HIGHLIGHT_INIT := True,
             overridesInstalled := True,
             posted := posted p @ [Ready (url_href (location p))]\<rparr>)"

subsection \<open>An example page\<close>

text \<open>
  The page \<open>https://t.example/\<close> in the frame, served by the proxy at
  \<open>http://localhost:3001\<close>, after the runtime patch and the bundle have run; the URLs that
  the examples resolve, as the platform resolves them; and a link to another site.
\<close>

definition exampleLocation :: url where
  "exampleLocation =
     \<lparr>url_href = ''http://localhost:3001/proxy?url=https%3A%2F%2Ft.example%2F'',
      url_pathname = ''/proxy'', url_search = ''?url=https%3A%2F%2Ft.example%2F'',
      url_hash = []\<rparr>"

definition exampleFrame :: page where
  "exampleFrame =
     \<lparr>PROXY_ORIGIN = Some ''https://t.example'', PROXY_HIGHLIGHT_INIT = True,
      location = exampleLocation, inspectorMode = False,
      historyEntries = [(''null'', ''http://localhost:3001/proxy?url=https%3A%2F%2Ft.example%2F'')],
      overridesInstalled = True, posted = [Ready ''http://localhost:3001/proxy?url=https%3A%2F%2Ft.example%2F'']\<rparr>"

definition exampleURL :: "string \<Rightarrow> string \<Rightarrow> url option" where
  "exampleURL u base =
     (if u = ''https://other.example/y'' then
        Some \<lparr>url_href = ''https://other.example/y'', url_pathname = ''/y'', url_search = [],
              url_hash = []\<rparr>
      else if u = ''/next?page=2'' then
        Some \<lparr>url_href = ''http://localhost:3001/next?page=2'', url_pathname = ''/next'',
              url_search = ''?page=2'', url_hash = []\<rparr>
      else None)"

definition exampleLink :: element where
  "exampleLink =
     \<lparr>el_tagName = ''A'', el_href = Some ''https://other.example/y'',
      el_textContent = '' Other site '', el_selector = ''body > a''\<rparr>"

section \<open>Verified properties\<close>

subsection \<open>stripOriginInText\<close>

lemma RegExp_new_escapeRegExp:
  "RegExp_new (escapeRegExp s) = Some (map Lit s)"
proof (induction s)
  case Nil
  show ?case by (simp add: escapeRegExp_def)
next
  case (Cons c s)
  have step: "escapeRegExp (c # s) =
      (if c \<in> set regexSyntaxChars then [backslash, c] else [c]) @ escapeRegExp s"
    by (simp add: escapeRegExp_def)
  show ?case
  proof (cases "c \<in> set regexSyntaxChars")
    case True
    then show ?thesis using Cons.IH by (simp add: step)
  next
    case False
    then have nb: "c \<noteq> backslash" and nd: "c \<noteq> CHR ''.''"
      by (auto simp: regexSyntaxChars_def backslash_def)
    show ?thesis
    proof (cases "escapeRegExp s")
      case Nil
      with Cons.IH have "s = []" by simp
      with False nd show ?thesis by (simp add: escapeRegExp_def)
    next
      case (Cons d ds)
      with False nb nd Cons.IH show ?thesis by (simp add: step)
    qed
  qed
qed

lemma match_here_Lit: "match_here (map Lit p) cs = prefix p cs"
proof (induction p arbitrary: cs)
  case Nil
  show ?case by simp
next
  case (Cons a p)
  then show ?case by (cases cs) auto
qed

lemma split_from_join:
  "sep \<noteq> [] \<Longrightarrow> concat (split_from sep piece cs) = piece @ replace_g (map Lit sep) cs"
proof (induction cs arbitrary: piece rule: length_induct)
  case (1 cs)
  show ?case
  proof (cases cs)
    case Nil
    then show ?thesis by simp
  next
    case (Cons c t)
    have shorter: "length (drop (length sep - 1) t) < length cs" and "length t < length cs"
      using Cons by simp_all
    with 1 have
      a: "concat (split_from sep [] (drop (length sep - 1) t)) =
            replace_g (map Lit sep) (drop (length sep - 1) t)" and
      b: "concat (split_from sep (piece @ [c]) t) = (piece @ [c]) @ replace_g (map Lit sep) t"
      by simp_all
    show ?thesis using Cons 1(2) a b by (simp add: match_here_Lit)
  qed
qed

lemma split_join_empty: "split_join t [] = t"
  by (induction t) (simp_all add: split_join_def String_split_def)

text \<open>
  C10. \<open>stripOriginInText(text, origin)\<close> returns the text unchanged for the empty origin;
  otherwise the escaped origin compiles to the pattern that matches the origin literally
  (no metacharacter of it keeps its regular-expression meaning), the call never throws, and
  the result is the text split on the origin and joined again.
\<close>

theorem stripOriginInText_literal:
  "stripOriginInText s [] = Some s \<and>
   RegExp_new (escapeRegExp origin) = Some (map Lit origin) \<and>
   stripOriginInText s origin = Some (split_join s origin)"
proof -
  have "stripOriginInText s origin = Some (split_join s origin)"
  proof (cases "origin = []")
    case True
    then show ?thesis by (simp add: stripOriginInText_def split_join_empty)
  next
    case False
    then show ?thesis
      using split_from_join [of origin "[]" s]
      by (simp add: stripOriginInText_def RegExp_new_escapeRegExp split_join_def String_split_def)
  qed
  then show ?thesis
    by (simp add: RegExp_new_escapeRegExp) (simp add: stripOriginInText_def)
qed

subsection \<open>strip and proxyOrStrip\<close>

lemma untouched_not_http:
  "leftUntouched u \<Longrightarrow> startsWith ORIGIN ''http://'' \<or> startsWith ORIGIN ''https://'' \<Longrightarrow> \<not> startsWith u ORIGIN"
  by (auto simp: leftUntouched_def startsWith_def prefix_def)

text \<open>
  C4. For an origin that is an http(s) origin and every string \<open>u\<close>: \<open>proxyOrStrip\<close> returns
  \<open>u\<close> itself when \<open>u\<close> starts with \<open>data:\<close>, \<open>blob:\<close>, \<open>javascript:\<close> or \<open>#\<close>; it is
  \<open>strip\<close> when \<open>u\<close> starts with the origin; for a third-party absolute URL (one matching
  \<open>http(s)://\<close> that starts neither with the target origin nor with the page's own origin)
  it is \<open>/proxy?url=\<close> followed by \<open>encodeURIComponent(u)\<close>; every other string is returned
  unchanged.
\<close>

theorem proxyOrStrip_cases:
  assumes "startsWith ORIGIN ''http://'' \<or> startsWith ORIGIN ''https://''"
  shows "(leftUntouched u \<longrightarrow> proxyOrStrip ORIGIN loc u = u) \<and>
         (startsWith u ORIGIN \<longrightarrow> proxyOrStrip ORIGIN loc u = strip ORIGIN u) \<and>
         (thirdPartyAbsolute ORIGIN loc u \<longrightarrow>
            proxyOrStrip ORIGIN loc u = ''/proxy?url='' @ encodeURIComponent u) \<and>
         (\<not> leftUntouched u \<and> \<not> startsWith u ORIGIN \<and> \<not> thirdPartyAbsolute ORIGIN loc u \<longrightarrow>
            proxyOrStrip ORIGIN loc u = u)"
proof (intro conjI impI)
  assume "leftUntouched u"
  then show "proxyOrStrip ORIGIN loc u = u"
    by (simp add: proxyOrStrip_def leftUntouched_def)
next
  assume a: "startsWith u ORIGIN"
  with assms have "\<not> leftUntouched u" using untouched_not_http by blast
  with a show "proxyOrStrip ORIGIN loc u = strip ORIGIN u"
    by (simp add: proxyOrStrip_def strip_def leftUntouched_def)
next
  assume a: "thirdPartyAbsolute ORIGIN loc u"
  then have "\<not> leftUntouched u" "u \<noteq> []"
    by (auto simp: thirdPartyAbsolute_def isAbsoluteHttp_def leftUntouched_def startsWith_def prefix_def)
  with a show "proxyOrStrip ORIGIN loc u = ''/proxy?url='' @ encodeURIComponent u"
    by (simp add: proxyOrStrip_def thirdPartyAbsolute_def leftUntouched_def)
next
  assume "\<not> leftUntouched u \<and> \<not> startsWith u ORIGIN \<and> \<not> thirdPartyAbsolute ORIGIN loc u"
  then show "proxyOrStrip ORIGIN loc u = u"
    by (auto simp: proxyOrStrip_def thirdPartyAbsolute_def leftUntouched_def)
qed

theorem proxyOrStrip_cases_witness:
  "startsWith ''https://t.example'' ''https://'' \<and>
   proxyOrStrip ''https://t.example'' ''http://localhost:3001'' ''data:text/plain,hi'' = ''data:text/plain,hi'' \<and>
   proxyOrStrip ''https://t.example'' ''http://localhost:3001'' ''https://t.example/x'' = ''/x'' \<and>
   proxyOrStrip ''https://t.example'' ''http://localhost:3001'' ''https://t.example'' = ''/'' \<and>
   proxyOrStrip ''https://t.example'' ''http://localhost:3001'' ''https://other.example/y'' =
     ''/proxy?url=https%3A%2F%2Fother.example%2Fy'' \<and>
   proxyOrStrip ''https://t.example'' ''http://localhost:3001'' ''/already/relative'' = ''/already/relative''"
proof -
  have h: "startsWith ''https://t.example'' ''http://'' \<or> startsWith ''https://t.example'' ''https://''"
    by (simp add: startsWith_def)
  show ?thesis
    using proxyOrStrip_cases [OF h, of "''data:text/plain,hi''" "''http://localhost:3001''"]
      proxyOrStrip_cases [OF h, of "''https://t.example/x''" "''http://localhost:3001''"]
      proxyOrStrip_cases [OF h, of "''https://t.example''" "''http://localhost:3001''"]
      proxyOrStrip_cases [OF h, of "''https://other.example/y''" "''http://localhost:3001''"]
      proxyOrStrip_cases [OF h, of "''/already/relative''" "''http://localhost:3001''"]
    by (simp add: startsWith_def leftUntouched_def thirdPartyAbsolute_def isAbsoluteHttp_def
        strip_def or_else_def slice_from_def encodeURIComponent_def uriUnreserved_def
        percentEncode_def hexDigit_def)
qed

subsection \<open>rewriteHtml: the origin-stripping passes\<close>

lemma stripOriginInText_total: "stripOriginInText s origin = Some (split_join s origin)"
proof (cases "origin = []")
  case True
  then show ?thesis by (simp add: stripOriginInText_def split_join_empty)
next
  case False
  then show ?thesis
    using split_from_join [of origin "[]" s]
    by (simp add: stripOriginInText_def RegExp_new_escapeRegExp split_join_def String_split_def)
qed

lemma replace_g_absent:
  "p \<noteq> [] \<Longrightarrow> \<not> includes_str s p \<Longrightarrow> replace_g (map Lit p) s = s"
  by (induction s) (simp_all add: match_here_Lit)

lemma split_join_absent: "\<not> includes_str s origin \<Longrightarrow> split_join s origin = s"
proof (cases "origin = []")
  case True
  then show ?thesis by (simp add: split_join_empty)
next
  case False
  assume "\<not> includes_str s origin"
  with False show ?thesis
    using split_from_join [of origin "[]" s] replace_g_absent [of origin s]
    by (simp add: split_join_def String_split_def)
qed

lemma split_join_Nil: "split_join [] origin = []"
  by (simp add: split_join_def String_split_def)

lemma mapAttrs_comp: "mapAttrs f (mapAttrs g d) = mapAttrs (\<lambda>t as. f t (g t as)) d"
  by (induction g d rule: mapAttrs.induct) simp_all

lemma mapAttrsM_total:
  "(\<And>t as. f t as = Some (g t as)) \<Longrightarrow> mapAttrsM f d = Some (mapAttrs g d)"
  by (induction g d rule: mapAttrs.induct) simp_all

lemma stripContentWhere_total:
  "stripContentWhere sel origin d = Some (stripContentPure sel origin d)"
  by (induction sel origin d rule: stripContentPure.induct)
     (simp_all add: stripOriginInText_total)

lemma map_other_key:
  "k \<notin> fst ` set as \<Longrightarrow> map (\<lambda>(k', v'). (k', if k' = k \<and> c v' then g v' else v')) as = as"
  by (induction as) auto

lemma update_as_map:
  "distinct (map fst as) \<Longrightarrow>
   (case map_of as k of
      None \<Rightarrow> as
    | Some v \<Rightarrow> if c v then AList.update k (g v) as else as) =
   map (\<lambda>(k', v'). (k', if k' = k \<and> c v' then g v' else v')) as"
proof (induction as)
  case Nil
  show ?case by simp
next
  case (Cons a as)
  obtain k0 v0 where a: "a = (k0, v0)" by (cases a)
  show ?case
  proof (cases "k0 = k")
    case True
    with Cons.prems a have "k \<notin> fst ` set as" by auto
    then show ?thesis using True a by (simp add: map_other_key)
  next
    case False
    from Cons.prems have "distinct (map fst as)" by simp
    from Cons.IH [OF this] False a show ?thesis
      by (cases "map_of as k") (auto split: if_splits)
  qed
qed


lemma mapValue_comp: "mapValue h (mapValue g as) = mapValue (\<lambda>k v. h k (g k v)) as"
  by (induction as) (auto simp: mapValue_def)

lemma mapValue_keys: "map fst (mapValue h as) = map fst as"
  by (induction as) (auto simp: mapValue_def)

lemma map_of_mapValue: "map_of (mapValue h as) k = map_option (h k) (map_of as k)"
  by (induction as) (auto simp: mapValue_def)

lemma stripUrlAttr_mapValue:
  "distinct (map fst as) \<Longrightarrow>
   stripUrlAttr origin a t as = mapValue (\<lambda>k v. if k = a then stripPrefixValue origin v else v) as"
proof -
  assume d: "distinct (map fst as)"
  have "(\<lambda>(k', v'). (k', if k' = a \<and> (v' \<noteq> [] \<and> startsWith v' origin)
            then or_else (slice_from v' (length origin)) ''/'' else v')) =
        (\<lambda>(k, v). (k, if k = a then stripPrefixValue origin v else v))"
    by (auto simp: fun_eq_iff stripPrefixValue_def or_else_def slice_from_def)
  with update_as_map [OF d, where k = a and c = "\<lambda>v. v \<noteq> [] \<and> startsWith v origin"
      and g = "\<lambda>v. or_else (slice_from v (length origin)) ''/''"]
  show ?thesis by (simp add: stripUrlAttr_def mapValue_def)
qed

lemma stripTextAttr_mapValue:
  "distinct (map fst as) \<Longrightarrow>
   stripTextAttr origin a t as = Some (mapValue (\<lambda>k v. if k = a then split_join v origin else v) as)"
proof -
  assume d: "distinct (map fst as)"
  have "(\<lambda>(k', v'). (k', if k' = a \<and> (v' \<noteq> [] \<and> includes_str v' origin)
            then split_join v' origin else v')) =
        (\<lambda>(k, v). (k, if k = a then split_join v origin else v))"
    by (auto simp: fun_eq_iff split_join_absent split_join_Nil)
  with update_as_map [OF d, where k = a and c = "\<lambda>v. v \<noteq> [] \<and> includes_str v origin"
      and g = "\<lambda>v. split_join v origin"]
  have "(case map_of as a of None \<Rightarrow> as
         | Some v \<Rightarrow> if v \<noteq> [] \<and> includes_str v origin
                     then AList.update a (split_join v origin) as else as) =
        mapValue (\<lambda>k v. if k = a then split_join v origin else v) as"
    by (simp add: mapValue_def)
  then show ?thesis
    by (cases "map_of as a") (auto simp: stripTextAttr_def stripOriginInText_total split: if_splits)
qed

lemma mapAttrs_cong_distinct:
  "distinctAttrs d \<Longrightarrow> (\<And>t as. distinct (map fst as) \<Longrightarrow> f t as = g t as) \<Longrightarrow>
   mapAttrs f d = mapAttrs g d"
  by (induction f d rule: mapAttrs.induct) simp_all

lemma mapAttrsM_total_distinct:
  "distinctAttrs d \<Longrightarrow> (\<And>t as. distinct (map fst as) \<Longrightarrow> f t as = Some (g t as)) \<Longrightarrow>
   mapAttrsM f d = Some (mapAttrs g d)"
  by (induction g d rule: mapAttrs.induct) simp_all

lemma distinctAttrs_mapAttrs:
  "distinctAttrs d \<Longrightarrow> (\<And>t as. distinct (map fst as) \<Longrightarrow> distinct (map fst (f t as))) \<Longrightarrow>
   distinctAttrs (mapAttrs f d)"
  by (induction f d rule: mapAttrs.induct) simp_all

lemma distinctAttrs_mapValue:
  "distinctAttrs d \<Longrightarrow> distinctAttrs (mapAttrs (\<lambda>t. mapValue (h t)) d)"
  by (rule distinctAttrs_mapAttrs) (simp_all add: mapValue_keys)


lemma mapAttrs_mapValue_id: "mapAttrs (\<lambda>t. mapValue (\<lambda>k v. v)) d = d"
  by (induction "\<lambda>t::string. mapValue (\<lambda>k v. v)" d rule: mapAttrs.induct)
     (simp_all add: mapValue_def)

lemma url_pass_step:
  assumes "distinctAttrs d"
  shows "mapAttrs (stripUrlAttr origin a) (mapAttrs (\<lambda>t. mapValue h) d) =
         mapAttrs (\<lambda>t. mapValue (\<lambda>k v. if k = a then stripPrefixValue origin (h k v) else h k v)) d"
proof -
  have "distinctAttrs (mapAttrs (\<lambda>t. mapValue h) d)"
    using assms by (rule distinctAttrs_mapValue)
  then have "mapAttrs (stripUrlAttr origin a) (mapAttrs (\<lambda>t. mapValue h) d) =
      mapAttrs (\<lambda>t. mapValue (\<lambda>k v. if k = a then stripPrefixValue origin v else v))
        (mapAttrs (\<lambda>t. mapValue h) d)"
    by (rule mapAttrs_cong_distinct) (rule stripUrlAttr_mapValue)
  then show ?thesis by (simp add: mapAttrs_comp mapValue_comp)
qed

lemma text_pass_step:
  assumes "distinctAttrs d"
  shows "mapAttrsM (stripTextAttr origin a) (mapAttrs (\<lambda>t. mapValue h) d) =
         Some (mapAttrs (\<lambda>t. mapValue (\<lambda>k v. if k = a then split_join (h k v) origin else h k v)) d)"
proof -
  have "distinctAttrs (mapAttrs (\<lambda>t. mapValue h) d)"
    using assms by (rule distinctAttrs_mapValue)
  then have "mapAttrsM (stripTextAttr origin a) (mapAttrs (\<lambda>t. mapValue h) d) =
      Some (mapAttrs (\<lambda>t. mapValue (\<lambda>k v. if k = a then split_join v origin else v))
        (mapAttrs (\<lambda>t. mapValue h) d))"
    by (rule mapAttrsM_total_distinct) (rule stripTextAttr_mapValue)
  then show ?thesis by (simp add: mapAttrs_comp mapValue_comp)
qed

lemma url_passes_list:
  assumes "distinctAttrs d"
  shows "distinct L \<Longrightarrow>
         foldl (\<lambda>d attr. mapAttrs (stripUrlAttr origin attr) d) d L =
         mapAttrs (\<lambda>t. mapValue (\<lambda>k v. if k \<in> set L then stripPrefixValue origin v else v)) d"
proof (induction L rule: rev_induct)
  case Nil
  show ?case by (simp add: mapAttrs_mapValue_id)
next
  case (snoc a L)
  then have IH: "foldl (\<lambda>d attr. mapAttrs (stripUrlAttr origin attr) d) d L =
      mapAttrs (\<lambda>t. mapValue (\<lambda>k v. if k \<in> set L then stripPrefixValue origin v else v)) d"
    and new: "a \<notin> set L"
    by simp_all
  have "(\<lambda>k v. if k = a
               then stripPrefixValue origin (if k \<in> set L then stripPrefixValue origin v else v)
               else if k \<in> set L then stripPrefixValue origin v else v) =
        (\<lambda>k v. if k \<in> set (L @ [a]) then stripPrefixValue origin v else v)"
    using new by (auto simp: fun_eq_iff)
  then show ?case
    by (simp add: IH url_pass_step [OF assms])
qed

lemma attr_passes:
  assumes "distinctAttrs d"
  shows "(case mapAttrsM (stripTextAttr origin ''srcset'')
            (foldl (\<lambda>d attr. mapAttrs (stripUrlAttr origin attr) d) d urlAttrs) of
          None \<Rightarrow> None
        | Some d2 \<Rightarrow> mapAttrsM (stripTextAttr origin ''style'') d2) =
         Some (mapAttrs (\<lambda>t. rewrittenAttrs origin) d)"
proof -
  have "distinct urlAttrs" by (simp add: urlAttrs_def)
  note u = url_passes_list [OF assms this]
  have "(\<lambda>k v. if k = ''style''
               then split_join (if k = ''srcset''
                 then split_join (if k \<in> set urlAttrs then stripPrefixValue origin v else v) origin
                 else if k \<in> set urlAttrs then stripPrefixValue origin v else v) origin
               else if k = ''srcset''
                 then split_join (if k \<in> set urlAttrs then stripPrefixValue origin v else v) origin
                 else if k \<in> set urlAttrs then stripPrefixValue origin v else v) =
        rewrittenValue origin"
    by (auto simp: fun_eq_iff rewrittenValue_def urlAttrs_def)
  moreover have "rewrittenAttrs origin = mapValue (rewrittenValue origin)"
    by (simp add: fun_eq_iff rewrittenAttrs_def)
  ultimately show ?thesis
    by (simp add: u text_pass_step [OF assms])
qed

lemma textContent_mapAttrs: "textContent (mapAttrs f d) = textContent d"
  by (induction f d rule: mapAttrs.induct) (simp_all add: textContent_def)

lemma textContent_stripContentPure: "textContent (stripContentPure sel origin d) = textContent d"
  by (induction sel origin d rule: stripContentPure.induct) (simp_all add: textContent_def)

lemma stripContentPure_rawChildren: "stripContentPure sel origin (rawChildren s) = rawChildren s"
  by (simp add: rawChildren_def)

lemma isPageInlineScript_rewrittenAttrs:
  "isPageInlineScript t (rewrittenAttrs origin as) = isPageInlineScript t as"
  by (cases "map_of as ''data-proxy-injected''")
     (auto simp: isPageInlineScript_def isProxyInjected_def rewrittenAttrs_def map_of_mapValue
        rewrittenValue_def urlAttrs_def)

lemma isStyle_rewrittenAttrs: "isStyle t (rewrittenAttrs origin as) = isStyle t as"
  by (simp add: isStyle_def)

lemma isStyle_not_script: "isStyle t as \<Longrightarrow> \<not> isPageInlineScript t as'"
  by (simp add: isStyle_def isPageInlineScript_def)

lemma content_passes:
  "stripContentPure isPageInlineScript origin
     (stripContentPure isStyle origin (mapAttrs (\<lambda>t. rewrittenAttrs origin) d)) =
   rewrittenNodes origin d"
proof (induction origin d rule: rewrittenNodes.induct)
  case (1 origin)
  show ?case by simp
next
  case (2 origin t as cs ns)
  let ?hit = "textContent cs \<noteq> [] \<and> includes_str (textContent cs) origin"
  show ?case
  proof (cases "(isStyle t as \<or> isPageInlineScript t as) \<and> ?hit")
    case True
    then show ?thesis
      using 2(2) isStyle_not_script [of t as "rewrittenAttrs origin as"]
      by (cases "isStyle t as")
         (simp_all add: textContent_mapAttrs textContent_stripContentPure
            stripContentPure_rawChildren isPageInlineScript_rewrittenAttrs
            isStyle_rewrittenAttrs)
  next
    case False
    then show ?thesis
      using 2(1) 2(2)
      by (auto simp: textContent_mapAttrs textContent_stripContentPure
            isPageInlineScript_rewrittenAttrs isStyle_rewrittenAttrs)
  qed
qed simp_all

lemma stripOriginDom_rewritten:
  assumes "distinctAttrs d"
  shows "stripOriginDom origin d = Some (rewrittenNodes origin d)"
  using attr_passes [OF assms, of origin]
  by (auto simp: stripOriginDom_def Let_def stripContentWhere_total content_passes
      split: option.splits)

lemma distinctAttrs_removeWhere: "distinctAttrs d \<Longrightarrow> distinctAttrs (removeWhere P d)"
  by (induction P d rule: removeWhere.induct) simp_all

lemma distinctAttrs_sanitizeDom: "distinctAttrs d \<Longrightarrow> distinctAttrs (sanitizeDom d)"
  unfolding sanitizeDom_def
  by (intro distinctAttrs_mapAttrs distinctAttrs_removeWhere)
     (simp_all add: removeIntegrity_def Let_def distinct_delete)

subsection \<open>rewriteHtml: counting the injected scripts\<close>







subsection \<open>rewriteHtml: claims\<close>

text \<open>
  C1, as the code has it. On a document whose elements have distinct attribute names (every
  parsed document), the rewriting succeeds and its result is the document with the blocking
  elements and attributes removed, every attribute value and every \<open>style\<close> or page script
  content rewritten as \<open>rewrittenNodes\<close> says, and the two scripts injected: a \<open>src\<close>,
  \<open>href\<close>, \<open>action\<close>, \<open>data\<close> or \<open>poster\<close> value loses the origin only as a prefix, and
  \<open>srcset\<close>, inline styles, \<open>style\<close> bodies and page scripts are split on the origin and
  joined, once.
\<close>

theorem rewriteDom_rewritten:
  assumes "distinctAttrs d"
  shows "rewriteDom patchJs (Some injectScript) origin d =
         Some (injectHighlight injectScript
                (injectRuntimePatch patchJs (rewrittenNodes origin (sanitizeDom d))))"
  using stripOriginDom_rewritten [OF distinctAttrs_sanitizeDom [OF assms], of origin]
  by (simp add: rewriteDom_def)

theorem rewriteDom_rewritten_witness:
  "distinctAttrs examplePage \<and>
   rewriteDom ''PATCH'' (Some ''BUNDLE'') ''https://t.example'' examplePage = Some examplePageOnce"
proof -
  have h: "distinctAttrs examplePage" by code_simp
  have "injectHighlight ''BUNDLE''
     (injectRuntimePatch ''PATCH''
       (rewrittenNodes ''https://t.example'' (sanitizeDom examplePage))) = examplePageOnce"
    by code_simp
  with h rewriteDom_rewritten [OF h, of "''PATCH''" "''BUNDLE''" "''https://t.example''"]
  show ?thesis by simp
qed

text \<open>
  C1 as stated fails: in the rewritten example page the link still carries the origin in
  its query, and the page script holds the origin that the removal of the inner occurrence
  has put together.
\<close>

theorem rewriteDom_leaves_origin:
  "rewriteDom ''PATCH'' (Some ''BUNDLE'') ''https://t.example'' examplePage = Some examplePageOnce \<and>
   \<not> originFree ''https://t.example'' examplePageOnce"
  by code_simp




subsection \<open>The HTTP handlers\<close>

text \<open>Header lookups.\<close>

lemma header_setHeader:
  "map_of (res_headers (setHeader n v r)) k = (if k = n then Some v else map_of (res_headers r) k)"
  by (simp add: setHeader_def update_conv')

lemma header_removeHeader:
  "map_of (res_headers (removeHeader n r)) k = (if k = n then None else map_of (res_headers r) k)"
  by (simp add: removeHeader_def delete_conv')

lemma header_setHeaderIf:
  "map_of (res_headers (setHeaderIf n v r)) k =
     (if k = n \<and> truthy v then v else map_of (res_headers r) k)"
  by (cases v) (simp_all add: setHeaderIf_def truthy_def header_setHeader)

lemma header_setPermissiveHeaders:
  "map_of (res_headers (setPermissiveHeaders res)) k =
     (if k = ''X-Content-Type-Options'' \<or> k = ''Content-Security-Policy-Report-Only'' \<or>
         k = ''Content-Security-Policy'' \<or> k = ''X-Frame-Options'' then None
      else if k = ''Access-Control-Allow-Headers'' then Some ''*''
      else if k = ''Access-Control-Allow-Methods'' then Some ''GET, POST, PUT, DELETE, OPTIONS''
      else if k = ''Access-Control-Allow-Origin'' then Some ''*''
      else map_of (res_headers res) k)"
  unfolding setPermissiveHeaders_def
  by (simp only: header_setHeader header_removeHeader) simp

lemma res_headers_send: "res_headers (send b r) = res_headers r"
  by (simp add: send_def)

lemma res_body_send: "res_body (send b r) = Sent b"
  by (simp add: send_def)

lemma res_status_kept:
  "res_status (send b r) = res_status r"
  "res_status (setHeader n v r) = res_status r"
  "res_status (removeHeader n r) = res_status r"
  "res_status (setHeaderIf n w r) = res_status r"
  by (simp_all add: send_def setHeader_def removeHeader_def setHeaderIf_def split: option.splits)

lemma res_status_setPermissiveHeaders: "res_status (setPermissiveHeaders r) = res_status r"
  by (simp add: setPermissiveHeaders_def res_status_kept)

lemma truthy_ct: "ctIncludes ct s \<Longrightarrow> truthy ct"
  by (auto simp: ctIncludes_def truthy_def split: option.splits)

lemma processAndSend_branches:
  "processAndSend plat st response finalUrl res =
     (if isHtml (resp_headers response ''content-type'') then
        map_option
          (\<lambda>out. send out (setHeader ''Content-Type'' ''text/html; charset=utf-8''
             (setHeaderIf ''ETag'' (resp_headers response ''etag'')
               (setHeaderIf ''Cache-Control'' (resp_headers response ''cache-control'')
                 (setPermissiveHeaders res)))))
          (rewriteHtml plat (resp_body response) finalUrl)
      else if isCss (resp_headers response ''content-type'') then
        Some (send (split_join (resp_body response) (resolvedOrigin plat st finalUrl))
          (setHeader ''Content-Type''
             (case resp_headers response ''content-type'' of
                None \<Rightarrow> ''text/css'' | Some c \<Rightarrow> or_else c ''text/css'')
             (setHeaderIf ''ETag'' (resp_headers response ''etag'')
               (setHeaderIf ''Cache-Control'' (resp_headers response ''cache-control'')
                 (setPermissiveHeaders res)))))
      else if isJs (resp_headers response ''content-type'') \<or>
              isJson (resp_headers response ''content-type'') then
        Some (send (split_join (resp_body response) (resolvedOrigin plat st finalUrl))
          (setHeaderIf ''Content-Type'' (resp_headers response ''content-type'')
             (setHeaderIf ''ETag'' (resp_headers response ''etag'')
               (setHeaderIf ''Cache-Control'' (resp_headers response ''cache-control'')
                 (setPermissiveHeaders res)))))
      else
        Some (send (resp_body response)
          (setHeaderIf ''Content-Type'' (resp_headers response ''content-type'')
             (setHeaderIf ''ETag'' (resp_headers response ''etag'')
               (setHeaderIf ''Cache-Control'' (resp_headers response ''cache-control'')
                 (setPermissiveHeaders res))))))"
  unfolding processAndSend_def Let_def stripOriginInCss_def stripOriginInText_total
    resolvedOrigin_def option.map
  by (cases "isHtml (resp_headers response ''content-type'')";
      cases "isCss (resp_headers response ''content-type'')";
      cases "isJs (resp_headers response ''content-type'')";
      cases "isJson (resp_headers response ''content-type'')")
     (simp_all only: if_True if_False simp_thms)

lemma processAndSend_headers:
  assumes "processAndSend plat st response finalUrl res = Some r"
  shows "corsOpen r \<and> noBlockingHeaders r \<and> res_status r = res_status res"
proof -
  let ?res3 = "setHeaderIf ''ETag'' (resp_headers response ''etag'')
      (setHeaderIf ''Cache-Control'' (resp_headers response ''cache-control'')
        (setPermissiveHeaders res))"
  have step: "corsOpen (send b (setHeader ''Content-Type'' v ?res3)) \<and>
      noBlockingHeaders (send b (setHeader ''Content-Type'' v ?res3)) \<and>
      res_status (send b (setHeader ''Content-Type'' v ?res3)) = res_status res" for b v
    by (simp add: corsOpen_def noBlockingHeaders_def res_headers_send header_setHeader
        header_setHeaderIf header_setPermissiveHeaders res_status_kept
        res_status_setPermissiveHeaders)
  have stepIf: "corsOpen (send b (setHeaderIf ''Content-Type'' v ?res3)) \<and>
      noBlockingHeaders (send b (setHeaderIf ''Content-Type'' v ?res3)) \<and>
      res_status (send b (setHeaderIf ''Content-Type'' v ?res3)) = res_status res" for b v
    by (simp add: corsOpen_def noBlockingHeaders_def res_headers_send header_setHeader
        header_setHeaderIf header_setPermissiveHeaders res_status_kept
        res_status_setPermissiveHeaders)
  from assms have "(\<exists>b v. r = send b (setHeader ''Content-Type'' v ?res3)) \<or>
      (\<exists>b v. r = send b (setHeaderIf ''Content-Type'' v ?res3))"
    unfolding processAndSend_branches
    by (auto split: if_splits)
  with step stepIf show ?thesis by blast
qed

lemma statusJson_fresh:
  "res_status (statusJson code obj freshResponse) = code"
  "res_headers (statusJson code obj freshResponse) = []"
  "noBlockingHeaders (statusJson code obj freshResponse)"
  "\<not> corsOpen (statusJson code obj freshResponse)"
  by (simp_all add: statusJson_def freshResponse_def noBlockingHeaders_def corsOpen_def)

lemma error_responses:
  "res_status missingUrlResponse = 400 \<and> res_headers missingUrlResponse = [] \<and>
   noBlockingHeaders missingUrlResponse"
  "res_status (proxyCatch u m) = 502 \<and> res_headers (proxyCatch u m) = [] \<and>
   noBlockingHeaders (proxyCatch u m)"
  "res_status noTargetResponse = 404 \<and> res_headers noTargetResponse = [] \<and>
   noBlockingHeaders noTargetResponse"
  "res_status (catchAllCatch u m) = 502 \<and> res_headers (catchAllCatch u m) = [] \<and>
   noBlockingHeaders (catchAllCatch u m)"
  unfolding missingUrlResponse_def proxyCatch_def noTargetResponse_def catchAllCatch_def
  by (simp_all only: statusJson_fresh simp_thms)

lemma processAndSend_fresh:
  "processAndSend plat st response finalUrl freshResponse = Some r \<Longrightarrow>
   res_status r = 200 \<and> corsOpen r \<and> noBlockingHeaders r"
  using processAndSend_headers [of plat st response finalUrl freshResponse r]
  by (simp add: freshResponse_def)

lemma proxyHandler_sent:
  assumes "sentResponse (proxyHandler plat st req) = Some r"
  shows "(res_status r = 200 \<and> corsOpen r \<and> noBlockingHeaders r) \<or>
         ((res_status r = 400 \<or> res_status r = 502) \<and> res_headers r = [] \<and> noBlockingHeaders r)"
  using assms
  by (auto simp: sentResponse_def proxyHandler_def Let_def error_responses
      dest: processAndSend_fresh split: option.splits if_splits sum.splits)

lemma catchAllHandler_sent:
  assumes "sentResponse (catchAllHandler plat st req) = Some r"
  shows "(res_status r = 200 \<and> corsOpen r \<and> noBlockingHeaders r) \<or>
         ((res_status r = 404 \<or> res_status r = 502) \<and> res_headers r = [] \<and> noBlockingHeaders r)"
  using assms
  by (auto simp: sentResponse_def catchAllHandler_def Let_def error_responses
      dest: processAndSend_fresh split: option.splits if_splits sum.splits)

lemma preflightHandler_sent:
  "\<exists>r. sentResponse (preflightHandler st req) = Some r \<and> res_status r = 204 \<and>
       corsOpen r \<and> noBlockingHeaders r"
  by (simp add: sentResponse_def preflightHandler_def corsOpen_def noBlockingHeaders_def
      header_setPermissiveHeaders)

text \<open>
  C6, as the code has it. The preflight response and every response that \<open>processAndSend\<close>
  sends carry the three CORS headers; a response of the \<open>/proxy\<close> route or of the catch-all
  is either such a response, with status 200, or one of the error responses (400 and 502,
  404 and 502), which carry no header of this program at all. No response carries
  \<open>X-Frame-Options\<close>, a \<open>Content-Security-Policy\<close> header or \<open>X-Content-Type-Options\<close>.
\<close>

theorem responses_headers:
  "(\<exists>r. sentResponse (preflightHandler st req) = Some r \<and> res_status r = 204 \<and>
        corsOpen r \<and> noBlockingHeaders r) \<and>
   (processAndSend plat st response finalUrl res = Some r1 \<longrightarrow>
      corsOpen r1 \<and> noBlockingHeaders r1) \<and>
   (sentResponse (proxyHandler plat st req) = Some r2 \<longrightarrow>
      (res_status r2 = 200 \<and> corsOpen r2 \<and> noBlockingHeaders r2) \<or>
      ((res_status r2 = 400 \<or> res_status r2 = 502) \<and> res_headers r2 = [] \<and>
       noBlockingHeaders r2)) \<and>
   (sentResponse (catchAllHandler plat st req) = Some r3 \<longrightarrow>
      (res_status r3 = 200 \<and> corsOpen r3 \<and> noBlockingHeaders r3) \<or>
      ((res_status r3 = 404 \<or> res_status r3 = 502) \<and> res_headers r3 = [] \<and>
       noBlockingHeaders r3))"
  using preflightHandler_sent [of st req] processAndSend_headers [of plat st response finalUrl res r1]
    proxyHandler_sent [of plat st req r2] catchAllHandler_sent [of plat st req r3]
  by blast


theorem responses_headers_witness:
  "processAndSend examplePlatform \<lparr>currentTargetOrigin = []\<rparr> exampleNotes
      ''https://t.example/notes.txt'' freshResponse = Some exampleNotesSent \<and>
   corsOpen exampleNotesSent \<and> noBlockingHeaders exampleNotesSent \<and>
   sentResponse (catchAllHandler examplePlatform \<lparr>currentTargetOrigin = []\<rparr>
      (exampleGet ''/a/b?c=1'')) = Some noTargetResponse \<and>
   res_status noTargetResponse = 404 \<and> res_headers noTargetResponse = []"
proof -
  have a: "processAndSend examplePlatform \<lparr>currentTargetOrigin = []\<rparr> exampleNotes
      ''https://t.example/notes.txt'' freshResponse = Some exampleNotesSent"
    by code_simp
  have b: "sentResponse (catchAllHandler examplePlatform \<lparr>currentTargetOrigin = []\<rparr>
      (exampleGet ''/a/b?c=1'')) = Some noTargetResponse"
    by code_simp
  have c: "res_status noTargetResponse = 404"
    by code_simp
  from responses_headers [of "\<lparr>currentTargetOrigin = []\<rparr>" "exampleGet ''/a/b?c=1''"
      examplePlatform exampleNotes "''https://t.example/notes.txt''" freshResponse
      exampleNotesSent exampleNotesSent noTargetResponse] a b c
  show ?thesis by simp
qed

text \<open>
  C6 as stated fails: the 400 response to a \<open>/proxy\<close> request without \<open>url\<close> has no
  \<open>Access-Control-Allow-Origin\<close> header.
\<close>

theorem error_response_without_cors:
  "sentResponse (proxyHandler examplePlatform \<lparr>currentTargetOrigin = []\<rparr> (exampleGet ''/proxy'')) =
     Some missingUrlResponse \<and>
   res_status missingUrlResponse = 400 \<and>
   map_of (res_headers missingUrlResponse) ''Access-Control-Allow-Origin'' = None \<and>
   \<not> corsOpen missingUrlResponse"
  by code_simp


lemma catchAllInit_ok:
  "req_method req = ''GET'' \<or> req_method req = ''HEAD'' \<or> req_chunks req = Inr chunks \<Longrightarrow>
   \<exists>init. catchAllInit st req = Inr init"
  by (auto simp: catchAllInit_def Let_def)

lemma proxyHandler_sets_origin:
  assumes "req_query_url preq = Some u" and "u \<noteq> []"
    and "URL_origin plat u = Some uo"
    and "fetch plat u \<lparr>init_method = ''GET'', init_headers = buildFetchHeaders uo,
           init_body = None\<rparr> = Inr response"
    and "isHtml (resp_headers response ''content-type'')"
    and "URL_origin plat (resp_url response) = Some tgt"
  shows "currentTargetOrigin (stateAfter (proxyHandler plat st0 preq)) = tgt"
  using assms by (simp add: proxyHandler_def stateAfter_def Let_def)

lemma catchAllHandler_forwards:
  assumes "currentTargetOrigin st \<noteq> []" and "catchAllInit st req = Inr init"
  shows "fetchCalls (catchAllHandler plat st req) =
         [(currentTargetOrigin st @ req_originalUrl req, init)]"
  using assms by (simp add: catchAllHandler_def fetchCalls_def Let_def split: sum.splits)

text \<open>
  C3. While the target origin is unset (the empty string), the catch-all answers every
  request with the 404 response that says no target is set, and calls nothing upstream.
  After a \<open>/proxy\<close> request whose upstream answer is HTML with final origin \<open>tgt\<close>, the state
  holds \<open>tgt\<close>, and a catch-all request (whose body, where one is read, arrives) makes
  exactly one upstream call, to \<open>tgt\<close> followed by the request's original path and query.
\<close>

theorem catchAll_target:
  "(currentTargetOrigin st = [] \<longrightarrow>
      catchAllHandler plat st req = (st, [], Some noTargetResponse) \<and>
      res_status noTargetResponse = 404 \<and>
      res_body noTargetResponse =
        Json [(''error'', ''No target origin set. Load a page via /proxy?url= first.'')]) \<and>
   (req_query_url preq = Some u \<and> u \<noteq> [] \<and> URL_origin plat u = Some uo \<and>
    fetch plat u \<lparr>init_method = ''GET'', init_headers = buildFetchHeaders uo,
      init_body = None\<rparr> = Inr response \<and>
    isHtml (resp_headers response ''content-type'') \<and>
    URL_origin plat (resp_url response) = Some tgt \<and> tgt \<noteq> [] \<and>
    (req_method req = ''GET'' \<or> req_method req = ''HEAD'' \<or> req_chunks req = Inr chunks) \<longrightarrow>
      currentTargetOrigin (stateAfter (proxyHandler plat st0 preq)) = tgt \<and>
      map fst (fetchCalls (catchAllHandler plat (stateAfter (proxyHandler plat st0 preq)) req)) =
        [tgt @ req_originalUrl req])"
proof (intro conjI impI)
  assume "currentTargetOrigin st = []"
  then show "catchAllHandler plat st req = (st, [], Some noTargetResponse)"
    by (simp add: catchAllHandler_def)
next
  show "res_status noTargetResponse = 404"
    by (simp add: noTargetResponse_def statusJson_def)
next
  show "res_body noTargetResponse =
      Json [(''error'', ''No target origin set. Load a page via /proxy?url= first.'')]"
    by (simp add: noTargetResponse_def statusJson_def)
next
  assume a: "req_query_url preq = Some u \<and> u \<noteq> [] \<and> URL_origin plat u = Some uo \<and>
    fetch plat u \<lparr>init_method = ''GET'', init_headers = buildFetchHeaders uo,
      init_body = None\<rparr> = Inr response \<and>
    isHtml (resp_headers response ''content-type'') \<and>
    URL_origin plat (resp_url response) = Some tgt \<and> tgt \<noteq> [] \<and>
    (req_method req = ''GET'' \<or> req_method req = ''HEAD'' \<or> req_chunks req = Inr chunks)"
  then have o: "currentTargetOrigin (stateAfter (proxyHandler plat st0 preq)) = tgt"
    using proxyHandler_sets_origin [of preq u plat uo response tgt st0] by blast
  then show "currentTargetOrigin (stateAfter (proxyHandler plat st0 preq)) = tgt" .
  from a obtain init where
    "catchAllInit (stateAfter (proxyHandler plat st0 preq)) req = Inr init"
    using catchAllInit_ok [of req chunks "stateAfter (proxyHandler plat st0 preq)"] by blast
  with a o show "map fst (fetchCalls (catchAllHandler plat (stateAfter (proxyHandler plat st0 preq)) req)) =
        [tgt @ req_originalUrl req]"
    using catchAllHandler_forwards [of "stateAfter (proxyHandler plat st0 preq)" req init plat]
    by simp
qed

theorem catchAll_target_witness:
  "catchAllHandler examplePlatform \<lparr>currentTargetOrigin = []\<rparr> (exampleGet ''/a/b?c=1'') =
     (\<lparr>currentTargetOrigin = []\<rparr>, [], Some noTargetResponse) \<and>
   stateAfter (proxyHandler examplePlatform \<lparr>currentTargetOrigin = []\<rparr>
      (exampleProxyGet ''https://t.example/'')) = \<lparr>currentTargetOrigin = ''https://t.example''\<rparr> \<and>
   map fst (fetchCalls (catchAllHandler examplePlatform
      (stateAfter (proxyHandler examplePlatform \<lparr>currentTargetOrigin = []\<rparr>
         (exampleProxyGet ''https://t.example/''))) (exampleGet ''/a/b?c=1''))) =
     [''https://t.example/a/b?c=1'']"
proof -
  have h1: "req_query_url (exampleProxyGet ''https://t.example/'') = Some ''https://t.example/'' \<and>
    ''https://t.example/'' \<noteq> [] \<and>
    URL_origin examplePlatform ''https://t.example/'' = Some ''https://t.example''"
    by code_simp
  have h2: "fetch examplePlatform ''https://t.example/''
      \<lparr>init_method = ''GET'', init_headers = buildFetchHeaders ''https://t.example'',
        init_body = None\<rparr> = Inr exampleFrontPage"
    by (simp add: examplePlatform_def exampleFetch_def)
  have h3: "isHtml (resp_headers exampleFrontPage ''content-type'') \<and>
    URL_origin examplePlatform (resp_url exampleFrontPage) = Some ''https://t.example'' \<and>
    ''https://t.example'' \<noteq> [] \<and>
    (req_method (exampleGet ''/a/b?c=1'') = ''GET'' \<or> req_method (exampleGet ''/a/b?c=1'') = ''HEAD'' \<or>
     req_chunks (exampleGet ''/a/b?c=1'') = Inr [])"
    by code_simp
  note h = h1 h2 h3
  have s: "stateAfter (proxyHandler examplePlatform \<lparr>currentTargetOrigin = []\<rparr>
      (exampleProxyGet ''https://t.example/'')) = \<lparr>currentTargetOrigin = ''https://t.example''\<rparr>"
    by code_simp
  have r: "req_originalUrl (exampleGet ''/a/b?c=1'') = ''/a/b?c=1''"
    by (simp add: exampleGet_def)
  from catchAll_target [of "\<lparr>currentTargetOrigin = []\<rparr>" examplePlatform "exampleGet ''/a/b?c=1''"
      "exampleProxyGet ''https://t.example/''" "''https://t.example/''" "''https://t.example''"
      exampleFrontPage "''https://t.example''" "[]" "\<lparr>currentTargetOrigin = []\<rparr>"] h s r
  show ?thesis by simp
qed


text \<open>
  C5, as the code has it. A content type that includes \<open>text/html\<close> gets the HTML rewrite;
  otherwise one that includes \<open>text/css\<close>, \<open>javascript\<close>, \<open>ecmascript\<close> or \<open>application/json\<close>
  gets the body split on the resolved origin and joined, under its own content type; every
  other response, a missing content type and every other text type among them, is sent
  as it came, with its content type when it has one.
\<close>

theorem processAndSend_dispatch:
  "(isHtml (resp_headers response ''content-type'') \<longrightarrow>
      processAndSend plat st response finalUrl res =
        map_option
          (\<lambda>out. send out (setHeader ''Content-Type'' ''text/html; charset=utf-8''
             (setHeaderIf ''ETag'' (resp_headers response ''etag'')
               (setHeaderIf ''Cache-Control'' (resp_headers response ''cache-control'')
                 (setPermissiveHeaders res)))))
          (rewriteHtml plat (resp_body response) finalUrl)) \<and>
   (\<not> isHtml (resp_headers response ''content-type'') \<and>
    (isCss (resp_headers response ''content-type'') \<or> isJs (resp_headers response ''content-type'') \<or>
     isJson (resp_headers response ''content-type'')) \<longrightarrow>
      (\<exists>r. processAndSend plat st response finalUrl res = Some r \<and>
           res_body r = Sent (split_join (resp_body response) (resolvedOrigin plat st finalUrl)) \<and>
           map_of (res_headers r) ''Content-Type'' = resp_headers response ''content-type'')) \<and>
   (\<not> isHtml (resp_headers response ''content-type'') \<and>
    \<not> isCss (resp_headers response ''content-type'') \<and>
    \<not> isJs (resp_headers response ''content-type'') \<and>
    \<not> isJson (resp_headers response ''content-type'') \<longrightarrow>
      (\<exists>r. processAndSend plat st response finalUrl res = Some r \<and>
           res_body r = Sent (resp_body response) \<and>
           map_of (res_headers r) ''Content-Type'' =
             (if truthy (resp_headers response ''content-type'')
              then resp_headers response ''content-type''
              else map_of (res_headers res) ''Content-Type'')))"
proof (intro conjI impI)
  assume "isHtml (resp_headers response ''content-type'')"
  then show "processAndSend plat st response finalUrl res =
        map_option
          (\<lambda>out. send out (setHeader ''Content-Type'' ''text/html; charset=utf-8''
             (setHeaderIf ''ETag'' (resp_headers response ''etag'')
               (setHeaderIf ''Cache-Control'' (resp_headers response ''cache-control'')
                 (setPermissiveHeaders res)))))
          (rewriteHtml plat (resp_body response) finalUrl)"
    by (simp add: processAndSend_branches)
next
  let ?ct = "resp_headers response ''content-type''"
  assume a: "\<not> isHtml ?ct \<and> (isCss ?ct \<or> isJs ?ct \<or> isJson ?ct)"
  then have t: "truthy ?ct"
    by (auto simp: isCss_def isJs_def isJson_def dest: truthy_ct)
  then obtain c where c: "?ct = Some c" "c \<noteq> []"
    by (auto simp: truthy_def split: option.splits)
  show "\<exists>r. processAndSend plat st response finalUrl res = Some r \<and>
           res_body r = Sent (split_join (resp_body response) (resolvedOrigin plat st finalUrl)) \<and>
           map_of (res_headers r) ''Content-Type'' = ?ct"
  proof (cases "isCss ?ct")
    case True
    with a c show ?thesis
      by (simp add: processAndSend_branches res_body_send res_headers_send header_setHeader
          or_else_def)
  next
    case False
    with a t show ?thesis
      by (simp add: processAndSend_branches res_body_send res_headers_send header_setHeaderIf)
  qed
next
  let ?ct = "resp_headers response ''content-type''"
  assume "\<not> isHtml ?ct \<and> \<not> isCss ?ct \<and> \<not> isJs ?ct \<and> \<not> isJson ?ct"
  then show "\<exists>r. processAndSend plat st response finalUrl res = Some r \<and>
           res_body r = Sent (resp_body response) \<and>
           map_of (res_headers r) ''Content-Type'' =
             (if truthy ?ct then ?ct else map_of (res_headers res) ''Content-Type'')"
    by (simp add: processAndSend_branches res_body_send res_headers_send header_setHeaderIf
        header_setPermissiveHeaders)
qed

theorem processAndSend_dispatch_witness:
  "\<not> isHtml (resp_headers exampleCss ''content-type'') \<and>
   isCss (resp_headers exampleCss ''content-type'') \<and>
   map_option res_body (processAndSend examplePlatform \<lparr>currentTargetOrigin = []\<rparr> exampleCss
      ''https://t.example/app.css'' freshResponse) = Some (Sent ''a{background:url(/i.png)}'') \<and>
   \<not> isHtml (resp_headers exampleNotes ''content-type'') \<and>
   \<not> isCss (resp_headers exampleNotes ''content-type'') \<and>
   \<not> isJs (resp_headers exampleNotes ''content-type'') \<and>
   \<not> isJson (resp_headers exampleNotes ''content-type'') \<and>
   map_option res_body (processAndSend examplePlatform \<lparr>currentTargetOrigin = []\<rparr> exampleNotes
      ''https://t.example/notes.txt'' freshResponse) = Some (Sent ''see https://t.example/x'')"
proof -
  have c: "\<not> isHtml (resp_headers exampleCss ''content-type'') \<and>
      isCss (resp_headers exampleCss ''content-type'')"
    by code_simp
  have n: "\<not> isHtml (resp_headers exampleNotes ''content-type'') \<and>
      \<not> isCss (resp_headers exampleNotes ''content-type'') \<and>
      \<not> isJs (resp_headers exampleNotes ''content-type'') \<and>
      \<not> isJson (resp_headers exampleNotes ''content-type'')"
    by code_simp
  have s: "split_join (resp_body exampleCss)
      (resolvedOrigin examplePlatform \<lparr>currentTargetOrigin = []\<rparr> ''https://t.example/app.css'') =
      ''a{background:url(/i.png)}''"
    by code_simp
  have b: "resp_body exampleNotes = ''see https://t.example/x''"
    by (simp add: exampleNotes_def)
  from processAndSend_dispatch [of exampleCss examplePlatform "\<lparr>currentTargetOrigin = []\<rparr>"
      "''https://t.example/app.css''" freshResponse]
    processAndSend_dispatch [of exampleNotes examplePlatform "\<lparr>currentTargetOrigin = []\<rparr>"
      "''https://t.example/notes.txt''" freshResponse] c n s b
  show ?thesis by auto
qed

text \<open>
  C5 as stated fails: a \<open>text/plain\<close> response is text-ish, and its body goes out with the
  origin still in it.
\<close>

theorem text_plain_passes_through:
  "isTextish (resp_headers exampleNotes ''content-type'') \<and>
   processAndSend examplePlatform \<lparr>currentTargetOrigin = []\<rparr> exampleNotes
      ''https://t.example/notes.txt'' freshResponse = Some exampleNotesSent \<and>
   res_body exampleNotesSent = Sent ''see https://t.example/x'' \<and>
   includes_str ''see https://t.example/x'' ''https://t.example'' \<and>
   split_join ''see https://t.example/x'' ''https://t.example'' = ''see /x''"
  by code_simp

subsection \<open>The scripts in the page\<close>


text \<open>
  C7. With inspector mode off and \<open>__PROXY_ORIGIN__\<close> set, a click on a link to
  \<open>https://other.example/y\<close> is blocked, and the message posted to the parent carries
  \<open>https://t.example/y\<close>: the path of the link behind the proxied origin, not the link's
  URL.
\<close>

theorem click_reports_rebuilt_url:
  "clickListener exampleURL exampleFrame [exampleLink] =
     (True,
      exampleFrame\<lparr>posted := posted exampleFrame @
        [LinkNavigation ''https://t.example/y'' ''Other site'' ''body > a'' None]\<rparr>) \<and>
   el_href exampleLink = Some ''https://other.example/y'' \<and>
   ''https://t.example/y'' \<noteq> ''https://other.example/y''"
  by (simp add: clickListener_def exampleFrame_def exampleLink_def exampleURL_def blockAndNotify_def
      reconstructed_def proxyOrigin_def startsWith_def exampleLocation_def trim_def isSpace_def)

text \<open>
  C8, as the code has it. The overrides of \<open>pushState\<close> and \<open>replaceState\<close> never change the
  session history or the location; \<open>pushState\<close> posts a \<open>link-navigation\<close> message when its
  URL argument is a non-empty string, \<open>replaceState\<close> when it is one that differs from
  \<open>location.href\<close>; without a URL argument nothing is posted.
\<close>

theorem history_overrides_block:
  "historyEntries (pushStateOverride URL_new p state u) = historyEntries p \<and>
   location (pushStateOverride URL_new p state u) = location p \<and>
   historyEntries (replaceStateOverride URL_new p state u) = historyEntries p \<and>
   location (replaceStateOverride URL_new p state u) = location p \<and>
   posted (pushStateOverride URL_new p state None) = posted p \<and>
   posted (replaceStateOverride URL_new p state None) = posted p \<and>
   posted (pushStateOverride URL_new p state (Some v)) =
     (if v \<noteq> []
      then posted p @ [LinkNavigation (reportedUrl URL_new p v) [] [] (Some ''pushState'')]
      else posted p) \<and>
   posted (replaceStateOverride URL_new p state (Some v)) =
     (if v \<noteq> [] \<and> v \<noteq> url_href (location p)
      then posted p @ [LinkNavigation (reportedUrl URL_new p v) [] [] (Some ''replaceState'')]
      else posted p)"
  by (cases u) (simp_all add: pushStateOverride_def replaceStateOverride_def)

theorem history_overrides_block_witness:
  "historyEntries (pushStateOverride exampleURL exampleFrame ''{}'' (Some ''/next?page=2'')) =
     historyEntries exampleFrame \<and>
   posted (pushStateOverride exampleURL exampleFrame ''{}'' (Some ''/next?page=2'')) =
     posted exampleFrame @
       [LinkNavigation ''https://t.example/next?page=2'' [] [] (Some ''pushState'')]"
proof -
  have "reportedUrl exampleURL exampleFrame ''/next?page=2'' = ''https://t.example/next?page=2''"
    by (simp add: reportedUrl_def exampleURL_def reconstructed_def proxyOrigin_def
        exampleFrame_def)
  with history_overrides_block [of exampleURL exampleFrame "''{}''" "Some ''/next?page=2''"
      "''/next?page=2''"]
  show ?thesis by simp
qed

text \<open>
  C8 as stated fails: after a call of the overridden \<open>pushState\<close> the session history is
  what it was, where the browser's own \<open>pushState\<close> adds an entry.
\<close>

theorem pushState_override_blocks:
  "overridesInstalled exampleFrame \<and>
   historyEntries (history_pushState exampleURL exampleFrame ''{}'' (Some ''/next?page=2'')) =
     historyEntries exampleFrame \<and>
   historyEntries (nativePushState exampleURL exampleFrame ''{}'' (Some ''/next?page=2'')) =
     historyEntries exampleFrame @ [(''{}'', ''http://localhost:3001/next?page=2'')] \<and>
   historyEntries (history_pushState exampleURL exampleFrame ''{}'' (Some ''/next?page=2'')) \<noteq>
     historyEntries (nativePushState exampleURL exampleFrame ''{}'' (Some ''/next?page=2''))"
  by (simp add: history_pushState_def pushStateOverride_def nativePushState_def exampleFrame_def
      exampleURL_def exampleLocation_def)


text \<open>
  C9, as the code has it. The runtime patch has no guard: a second execution leaves the
  two globals as they were and wraps every primitive it overrides once more, so that
  \<open>fetch\<close> and \<open>XMLHttpRequest.open\<close> resolve their URL twice, \<open>window.open\<close> strips twice, and
  \<open>appendChild\<close> and \<open>insertBefore\<close> fix the child twice. No execution changes
  \<open>location.assign\<close> or \<open>location.replace\<close>, and each ends as the one before (in a browser,
  with the \<open>TypeError\<close>). The guard \<open>__PROXY_HIGHLIGHT_INIT__\<close> belongs to the highlight
  bundle, whose second execution changes nothing.
\<close>

theorem runtime_patch_unguarded:
  "w_PROXY_ORIGIN (runRuntimePatch ORIGIN loc (runRuntimePatch ORIGIN loc w)) =
     w_PROXY_ORIGIN (runRuntimePatch ORIGIN loc w) \<and>
   w_proxyOrStrip (runRuntimePatch ORIGIN loc (runRuntimePatch ORIGIN loc w)) =
     w_proxyOrStrip (runRuntimePatch ORIGIN loc w) \<and>
   w_locationAssign (runRuntimePatch ORIGIN loc w) = w_locationAssign w \<and>
   w_locationReplace (runRuntimePatch ORIGIN loc w) = w_locationReplace w \<and>
   runtimePatchEnd (runRuntimePatch ORIGIN loc w) = runtimePatchEnd w \<and>
   w_fetch (runRuntimePatch ORIGIN loc (runRuntimePatch ORIGIN loc w)) input =
     w_fetch w (patchedFetchInput ORIGIN loc (patchedFetchInput ORIGIN loc input)) \<and>
   w_xhrOpen (runRuntimePatch ORIGIN loc (runRuntimePatch ORIGIN loc w)) m u =
     w_xhrOpen w m (proxyOrStrip ORIGIN loc (proxyOrStrip ORIGIN loc u)) \<and>
   w_open (runRuntimePatch ORIGIN loc (runRuntimePatch ORIGIN loc w)) u =
     w_open w (strip ORIGIN (strip ORIGIN u)) \<and>
   w_appendChild (runRuntimePatch ORIGIN loc (runRuntimePatch ORIGIN loc w)) child =
     w_appendChild w (fixChild ORIGIN (fixChild ORIGIN child)) \<and>
   w_insertBefore (runRuntimePatch ORIGIN loc (runRuntimePatch ORIGIN loc w)) child =
     w_insertBefore w (fixChild ORIGIN (fixChild ORIGIN child)) \<and>
   runHighlightBundle (runHighlightBundle p) = runHighlightBundle p"
  by (cases "w_locationAssign w"; cases "w_locationReplace w")
     (simp_all add: runRuntimePatch_def runtimePatchEnd_def runHighlightBundle_def)

theorem runtime_patch_unguarded_witness:
  "w_fetch (runRuntimePatch ''https://t.example'' ''http://localhost:3001''
      (runRuntimePatch ''https://t.example'' ''http://localhost:3001'' nativeWindow))
     (UrlString ''https://t.example/api'') = [NativeFetch (UrlString ''/api'')] \<and>
   runtimePatchEnd (runRuntimePatch ''https://t.example'' ''http://localhost:3001'' nativeWindow) =
     TypeErrorThrown \<and>
   map_option (\<lambda>f. f ''/next'')
     (w_locationAssign
        (runRuntimePatch ''https://t.example'' ''http://localhost:3001'' nativeWindow)) =
     Some [NativeAssign ''/next''] \<and>
   runHighlightBundle (runHighlightBundle exampleFrame) = exampleFrame"
proof -
  have "patchedFetchInput ''https://t.example'' ''http://localhost:3001''
      (patchedFetchInput ''https://t.example'' ''http://localhost:3001''
        (UrlString ''https://t.example/api'')) = UrlString ''/api''"
    by (simp add: patchedFetchInput_def proxyOrStrip_def startsWith_def or_else_def
        slice_from_def isAbsoluteHttp_def)
  moreover have "runHighlightBundle exampleFrame = exampleFrame"
    by (simp add: runHighlightBundle_def exampleFrame_def)
  ultimately show ?thesis
    using runtime_patch_unguarded [of "''https://t.example''" "''http://localhost:3001''"
      nativeWindow "UrlString ''https://t.example/api''" _ _ _ exampleFrame]
    by (simp add: nativeWindow_def runtimePatchEnd_def)
qed

text \<open>
  C9 as stated fails: after the second execution \<open>fetch\<close> turns a URL into a \<open>/proxy\<close>
  reference that it hands on as it is after the first.
\<close>

theorem runtime_patch_twice_differs:
  "w_fetch (runRuntimePatch ''https://t.example'' ''http://localhost:3001'' nativeWindow)
     (UrlString ''https://t.examplehttps://other.example/y'') =
     [NativeFetch (UrlString ''https://other.example/y'')] \<and>
   w_fetch (runRuntimePatch ''https://t.example'' ''http://localhost:3001''
      (runRuntimePatch ''https://t.example'' ''http://localhost:3001'' nativeWindow))
     (UrlString ''https://t.examplehttps://other.example/y'') =
     [NativeFetch (UrlString ''/proxy?url=https%3A%2F%2Fother.example%2Fy'')] \<and>
   runRuntimePatch ''https://t.example'' ''http://localhost:3001''
      (runRuntimePatch ''https://t.example'' ''http://localhost:3001'' nativeWindow) \<noteq>
   runRuntimePatch ''https://t.example'' ''http://localhost:3001'' nativeWindow"
proof -
  let ?w1 = "runRuntimePatch ''https://t.example'' ''http://localhost:3001'' nativeWindow"
  let ?w2 = "runRuntimePatch ''https://t.example'' ''http://localhost:3001'' ?w1"
  let ?u = "UrlString ''https://t.examplehttps://other.example/y''"
  have a: "w_fetch ?w1 ?u = [NativeFetch (UrlString ''https://other.example/y'')]"
    by (simp add: runRuntimePatch_def nativeWindow_def patchedFetchInput_def proxyOrStrip_def
        startsWith_def or_else_def slice_from_def)
  have b: "w_fetch ?w2 ?u = [NativeFetch (UrlString ''/proxy?url=https%3A%2F%2Fother.example%2Fy'')]"
    by (simp add: runRuntimePatch_def nativeWindow_def patchedFetchInput_def proxyOrStrip_def
        startsWith_def or_else_def slice_from_def isAbsoluteHttp_def encodeURIComponent_def
        uriUnreserved_def percentEncode_def hexDigit_def)
  have "w_fetch ?w2 ?u \<noteq> w_fetch ?w1 ?u"
    unfolding a b by simp
  then have "?w2 \<noteq> ?w1" by metis
  with a b show ?thesis by simp
qed

end
